theory Spec2Isabelle
  imports Complex_Main
begin

section \<open>Python values and library functions used by the ledger and the analyzers\<close>

text \<open>
  Python floats are idealised as exact rationals, with NaN added where the code can meet
  it; Python ints are \<open>int\<close>, and \<open>str\<close> is \<open>string\<close> (ASCII bytes). A raised exception is the
  left summand of the result.
\<close>

datatype py_error = ZeroDivisionError | IndexError | AttributeError | OSError

definition bind_err :: "py_error + 'a \<Rightarrow> ('a \<Rightarrow> py_error + 'b) \<Rightarrow> py_error + 'b" where
  "bind_err r f = (case r of Inl e \<Rightarrow> Inl e | Inr v \<Rightarrow> f v)"

text \<open>Python's \<open>a / b\<close>: raises ZeroDivisionError for a zero divisor.\<close>

definition py_truediv :: "rat \<Rightarrow> rat \<Rightarrow> py_error + rat" where
  "py_truediv a b = (if b = 0 then Inl ZeroDivisionError else Inr (a / b))"

text \<open>
  Python's \<open>round(x, n)\<close>, idealised: the nearest multiple of \<open>10^-n\<close>, ties to the even one.
  Python rounds the binary float, which can sit just beside a decimal tie, so at a tie its
  result can be the other neighbour. The properties below use of a rounded value only
  that it is within half a unit of the last place of \<open>x\<close>, that it stays between two whole
  numbers that enclose \<open>x\<close>, and its value at inputs that are no ties.
\<close>

definition round_half_even :: "rat \<Rightarrow> int" where
  "round_half_even q =
     (let f = \<lfloor>q\<rfloor>; d = q - of_int f
      in if d < 1 / 2 then f else if 1 / 2 < d then f + 1 else if even f then f else f + 1)"

definition py_round :: "rat \<Rightarrow> nat \<Rightarrow> rat" where
  "py_round x n = of_int (round_half_even (x * 10 ^ n)) / 10 ^ n"

text \<open>
  \<open>str.lower()\<close> on ASCII letters; other bytes stay as they are (Python also folds the
  capitals beyond ASCII, which this string type does not hold as single characters).
\<close>

definition lower_char :: "char \<Rightarrow> char" where
  "lower_char c =
     (let n = (of_char c :: nat) in if 65 \<le> n \<and> n \<le> 90 then char_of (n + 32) else c)"

definition str_lower :: "string \<Rightarrow> string" where
  "str_lower s = map lower_char s"

text \<open>\<open>s.replace(c, r)\<close> for a one-character pattern \<open>c\<close>.\<close>

definition str_replace :: "char \<Rightarrow> string \<Rightarrow> string \<Rightarrow> string" where
  "str_replace c r s = concat (map (\<lambda>x. if x = c then r else [x]) s)"

text \<open>\<open>s.split(d)\<close> for a one-character separator, and \<open>d.join(ws)\<close>.\<close>

fun str_split :: "char \<Rightarrow> string \<Rightarrow> string list" where
  "str_split d [] = [[]]"
| "str_split d (c # cs) =
     (if c = d then [] # str_split d cs
      else (case str_split d cs of [] \<Rightarrow> [[c]] | w # ws \<Rightarrow> (c # w) # ws))"

fun str_join :: "string \<Rightarrow> string list \<Rightarrow> string" where
  "str_join d [] = []"
| "str_join d [w] = w"
| "str_join d (w # ws) = w @ d @ str_join d ws"

text \<open>
  A float is NaN or a number. Every comparison with NaN is false.
\<close>

datatype py_float = NaN | Num rat

definition float_ge :: "py_float \<Rightarrow> rat \<Rightarrow> bool" where
  "float_ge x b = (case x of NaN \<Rightarrow> False | Num v \<Rightarrow> v \<ge> b)"

definition float_lt :: "py_float \<Rightarrow> rat \<Rightarrow> bool" where
  "float_lt x b = (case x of NaN \<Rightarrow> False | Num v \<Rightarrow> v < b)"

text \<open>
  What a text column of the master table can hold in a row: the code writes a \<open>str\<close> (or a
  bool, for \<open>Latest_Was_Correct\<close>), and \<open>pd.read_csv\<close> infers the type of each column when
  the table is read back, so the cell can return as a number, a bool or NaN. \<open>truthy\<close> is
  Python's truth value of the cell.
\<close>

datatype cell = Str string | Bool bool | Float py_float

definition truthy :: "cell \<Rightarrow> bool" where
  "truthy c =
     (case c of Str s \<Rightarrow> s \<noteq> [] | Bool b \<Rightarrow> b | Float NaN \<Rightarrow> True | Float (Num v) \<Rightarrow> v \<noteq> 0)"

section \<open>The master contrarian database (master\_contrarian\_database.py)\<close>

text \<open>
  One row of the master table, as the code holds it in memory. \<open>Contrarian_Success_Rate\<close>
  is \<open>None\<close> in a new row without a resolved call, and a float otherwise (NaN when the row
  was read back from a file whose cell was empty).
\<close>

record author_data =
  Author_ID :: cell
  Author_Name :: cell
  First_Seen_Date :: cell
  Last_Seen_Date :: cell
  Total_Earnings_Calls :: int
  Total_Companies_Covered :: int
  Total_Contrarian_Instances :: int
  Successful_Contrarian_Calls :: int
  Failed_Contrarian_Calls :: int
  Contrarian_Success_Rate :: "py_float option"
  Overall_Contrarian_Score :: rat
  Average_Contrarian_Score_Per_Call :: rat
  Companies_List :: cell
  Latest_Company :: cell
  Latest_Symbol :: cell
  Latest_Earnings_Date :: cell
  Latest_Contrarian_Type :: cell
  Latest_Was_Correct :: cell
  Repeat_Contrarian_Count :: int
  Consistency_Score :: rat
  Risk_Level :: cell
  Last_Updated :: cell

text \<open>
  A contrarian dict as \<open>add_contrarian_analysis\<close> reads it: every key is read with
  \<open>.get\<close>, so every key may be missing (\<open>None\<close>).
\<close>

record contrarian =
  author :: "string option"
  earnings_prediction :: "string option"
  contrarian_score :: "rat option"
  was_minority_sentiment :: "bool option"
  was_minority_prediction :: "bool option"

text \<open>
  The report dict. \<open>actual_result\<close> is \<open>None\<close> when the key is missing or its value is
  falsy (\<open>None\<close>, \<open>{}\<close>); otherwise it holds the dict's \<open>'result'\<close> entry, itself
  \<open>None\<close> when that key is missing.
\<close>

record report_data =
  company :: "string option"
  symbol :: "string option"
  earnings_date :: "string option"
  actual_result :: "string option option"

text \<open>
  The table is a dict from the \<open>Author_ID\<close> cell of a row to the row. The code looks a row
  up under a \<open>str\<close>; a key that was read back as a number (or anything else that is no
  \<open>str\<close>) is equal to no \<open>str\<close>.
\<close>

datatype row_key = StrKey string | IntKey int | OtherKey nat

type_synonym ledger = "row_key \<rightharpoonup> author_data"

definition generate_author_id :: "string \<Rightarrow> string" where
  "generate_author_id author_name =
     str_replace (CHR '','') []
       (str_replace (CHR ''.'') []
         (str_replace (CHR '' '') ''_'' (str_lower author_name)))"

definition evaluate_contrarian_accuracy :: "contrarian \<Rightarrow> string option option \<Rightarrow> bool option" where
  "evaluate_contrarian_accuracy c actual =
     (case actual of
        None \<Rightarrow> None
      | Some res \<Rightarrow>
          (let prediction = str_lower (case earnings_prediction c of None \<Rightarrow> [] | Some p \<Rightarrow> p);
               actual_outcome = str_lower (case res of None \<Rightarrow> [] | Some r \<Rightarrow> r)
           in if prediction = ''beat'' \<and> actual_outcome = ''beat'' then Some True
              else if prediction = ''miss'' \<and> actual_outcome = ''miss'' then Some True
              else if prediction = ''meet'' \<and> actual_outcome = ''meet'' then Some True
              else if prediction \<noteq> [] \<and> actual_outcome \<noteq> [] then Some False
              else None))"

definition determine_contrarian_type :: "contrarian \<Rightarrow> string" where
  "determine_contrarian_type c =
     (let sentiment_contrarian = (case was_minority_sentiment c of None \<Rightarrow> False | Some b \<Rightarrow> b);
          prediction_contrarian = (case was_minority_prediction c of None \<Rightarrow> False | Some b \<Rightarrow> b)
      in if sentiment_contrarian \<and> prediction_contrarian then ''Both_Sentiment_Prediction''
         else if sentiment_contrarian then ''Sentiment_Only''
         else if prediction_contrarian then ''Prediction_Only''
         else ''Unknown'')"

text \<open>
  \<open>_calculate_risk_level\<close>. The guard is \<open>success_rate is None\<close>: a NaN passes it, and then
  fails every comparison.
\<close>

definition calculate_risk_level :: "author_data \<Rightarrow> string" where
  "calculate_risk_level d =
     (let total_calls = Total_Contrarian_Instances d;
          consistency = Consistency_Score d
      in case Contrarian_Success_Rate d of
           None \<Rightarrow> ''Unknown''
         | Some success_rate \<Rightarrow>
             if total_calls < 2 then ''Unknown''
             else if float_ge success_rate 70 \<and> total_calls \<ge> 3 then ''Low_Risk''
             else if float_ge success_rate 50 \<and> consistency \<ge> 50 then ''Medium_Risk''
             else if float_lt success_rate 30 \<or> consistency < 20 then ''High_Risk''
             else ''Medium_Risk'')"

definition latest_was_correct :: "bool option \<Rightarrow> cell" where
  "latest_was_correct was_correct =
     (case was_correct of None \<Rightarrow> Str ''Unknown'' | Some b \<Rightarrow> Bool b)"

subsection \<open>The steps of \<open>_update_existing_author\<close>, in the order of the source\<close>

definition update_basic_counts :: "author_data \<Rightarrow> author_data" where
  "update_basic_counts d =
     d\<lparr>Total_Earnings_Calls := Total_Earnings_Calls d + 1,
       Total_Contrarian_Instances := Total_Contrarian_Instances d + 1\<rparr>"

text \<open>
  \<open>companies_list = cell.split(';') if cell else []\<close>: a truthy cell that is no \<open>str\<close> has no
  \<open>split\<close>, and the call raises AttributeError.
\<close>

definition update_company_tracking :: "string \<Rightarrow> author_data \<Rightarrow> py_error + author_data" where
  "update_company_tracking company_name d =
     bind_err
       (if truthy (Companies_List d)
        then (case Companies_List d of
                Str s \<Rightarrow> Inr (str_split (CHR '';'') s)
              | Bool b \<Rightarrow> Inl AttributeError
              | Float x \<Rightarrow> Inl AttributeError)
        else Inr [])
       (\<lambda>companies_list.
          if company_name \<notin> set companies_list
          then Inr (d\<lparr>Total_Companies_Covered := int (length (companies_list @ [company_name])),
                      Companies_List := Str (str_join '';'' (companies_list @ [company_name]))\<rparr>)
          else Inr d)"

definition update_accuracy_tracking :: "bool option \<Rightarrow> author_data \<Rightarrow> author_data" where
  "update_accuracy_tracking was_correct d =
     (case was_correct of
        Some True \<Rightarrow> d\<lparr>Successful_Contrarian_Calls := Successful_Contrarian_Calls d + 1\<rparr>
      | Some False \<Rightarrow> d\<lparr>Failed_Contrarian_Calls := Failed_Contrarian_Calls d + 1\<rparr>
      | None \<Rightarrow> d)"

definition calculate_success_rate :: "author_data \<Rightarrow> py_error + author_data" where
  "calculate_success_rate d =
     (let total_calls_with_results = Successful_Contrarian_Calls d + Failed_Contrarian_Calls d
      in if total_calls_with_results > 0
         then bind_err
                (py_truediv (of_int (Successful_Contrarian_Calls d)) (of_int total_calls_with_results))
                (\<lambda>q. Inr (d\<lparr>Contrarian_Success_Rate := Some (Num (py_round (q * 100) 1))\<rparr>))
         else Inr d)"

definition update_scores :: "rat \<Rightarrow> author_data \<Rightarrow> py_error + author_data" where
  "update_scores score d =
     (let current_total_score = Overall_Contrarian_Score d;
          d1 = d\<lparr>Overall_Contrarian_Score := py_round (current_total_score + score) 2\<rparr>
      in bind_err
           (py_truediv (Overall_Contrarian_Score d1) (of_int (Total_Contrarian_Instances d1)))
           (\<lambda>q. Inr (d1\<lparr>Average_Contrarian_Score_Per_Call := py_round q 2\<rparr>)))"

definition update_latest_information ::
  "string \<Rightarrow> string \<Rightarrow> string \<Rightarrow> string \<Rightarrow> bool option \<Rightarrow> author_data \<Rightarrow> author_data" where
  "update_latest_information company_name ticker edate contrarian_type was_correct d =
     d\<lparr>Last_Seen_Date := Str edate,
       Latest_Company := Str company_name,
       Latest_Symbol := Str ticker,
       Latest_Earnings_Date := Str edate,
       Latest_Contrarian_Type := Str contrarian_type,
       Latest_Was_Correct := latest_was_correct was_correct\<rparr>"

definition check_repeat_contrarian :: "author_data \<Rightarrow> author_data" where
  "check_repeat_contrarian d =
     (if Total_Contrarian_Instances d > 1
      then d\<lparr>Repeat_Contrarian_Count := Total_Contrarian_Instances d - 1\<rparr>
      else d)"

definition calculate_consistency :: "author_data \<Rightarrow> py_error + author_data" where
  "calculate_consistency d =
     bind_err
       (py_truediv (of_int (Total_Contrarian_Instances d)) (of_int (Total_Earnings_Calls d)))
       (\<lambda>q. Inr (d\<lparr>Consistency_Score := py_round (q * 100) 1\<rparr>))"

text \<open>\<open>now\<close> is the clock reading \<open>datetime.now()\<close>, taken as an input.\<close>

definition update_existing_author ::
  "author_data \<Rightarrow> string \<Rightarrow> string \<Rightarrow> string \<Rightarrow> string \<Rightarrow> bool option \<Rightarrow> rat \<Rightarrow> string
     \<Rightarrow> py_error + author_data" where
  "update_existing_author d company_name ticker edate contrarian_type was_correct score now =
     bind_err (update_company_tracking company_name (update_basic_counts d)) (\<lambda>d2.
     bind_err (calculate_success_rate (update_accuracy_tracking was_correct d2)) (\<lambda>d4.
     bind_err (update_scores score d4) (\<lambda>d5.
     bind_err (calculate_consistency
                (check_repeat_contrarian
                  (update_latest_information company_name ticker edate contrarian_type was_correct d5))) (\<lambda>d8.
     Inr (d8\<lparr>Risk_Level := Str (calculate_risk_level d8), Last_Updated := Str now\<rparr>)))))"

definition create_new_author_record ::
  "string \<Rightarrow> string \<Rightarrow> string \<Rightarrow> string \<Rightarrow> string \<Rightarrow> string \<Rightarrow> bool option \<Rightarrow> rat \<Rightarrow> string
     \<Rightarrow> author_data" where
  "create_new_author_record author_name author_id company_name ticker edate contrarian_type was_correct score now =
     \<lparr>Author_ID = Str author_id,
      Author_Name = Str author_name,
      First_Seen_Date = Str edate,
      Last_Seen_Date = Str edate,
      Total_Earnings_Calls = 1,
      Total_Companies_Covered = 1,
      Total_Contrarian_Instances = 1,
      Successful_Contrarian_Calls = (if was_correct = Some True then 1 else 0),
      Failed_Contrarian_Calls = (if was_correct = Some False then 1 else 0),
      Contrarian_Success_Rate =
        (if was_correct = Some True then Some (Num 100)
         else if was_correct = Some False then Some (Num 0) else None),
      Overall_Contrarian_Score = score,
      Average_Contrarian_Score_Per_Call = score,
      Companies_List = Str company_name,
      Latest_Company = Str company_name,
      Latest_Symbol = Str ticker,
      Latest_Earnings_Date = Str edate,
      Latest_Contrarian_Type = Str contrarian_type,
      Latest_Was_Correct = latest_was_correct was_correct,
      Repeat_Contrarian_Count = 0,
      Consistency_Score = 100,
      Risk_Level = Str ''New'',
      Last_Updated = Str now\<rparr>"

subsection \<open>\<open>add_contrarian_analysis\<close>, \<open>_load_existing_data\<close> and \<open>_save_master_database\<close>\<close>

text \<open>
  The loop of \<open>add_contrarian_analysis\<close> over the batch, on the copy \<open>updated_data\<close> of the
  loaded table. After the row is updated or created, \<open>_save_author_history\<close> opens
  \<open>author_histories/<author_id>_history.csv\<close> for appending. Whether that succeeds is the
  file system's answer, the input \<open>history_ok\<close>: an id with a \<open>/\<close> names a directory that
  does not exist, and \<open>open\<close> raises FileNotFoundError, an OSError. An exception ends the
  call before \<open>_save_master_database\<close>, and the saved table stays as it was.
\<close>

fun merge_contrarians ::
  "(string \<Rightarrow> bool) \<Rightarrow> string \<Rightarrow> string \<Rightarrow> string \<Rightarrow> string option option \<Rightarrow> string
     \<Rightarrow> contrarian list \<Rightarrow> ledger \<Rightarrow> py_error + ledger" where
  "merge_contrarians history_ok company_name ticker edate actual now [] updated_data =
     Inr updated_data"
| "merge_contrarians history_ok company_name ticker edate actual now (c # rest) updated_data =
     (let author_name = (case author c of None \<Rightarrow> ''Unknown'' | Some a \<Rightarrow> a);
          author_id = generate_author_id author_name;
          was_correct = evaluate_contrarian_accuracy c actual;
          contrarian_type = determine_contrarian_type c;
          score = (case contrarian_score c of None \<Rightarrow> 0 | Some s \<Rightarrow> s)
      in bind_err
           (case updated_data (StrKey author_id) of
              Some d \<Rightarrow>
                update_existing_author d company_name ticker edate contrarian_type was_correct
                  score now
            | None \<Rightarrow>
                Inr (create_new_author_record author_name author_id company_name ticker edate
                       contrarian_type was_correct score now))
           (\<lambda>d'. if history_ok author_id
                 then merge_contrarians history_ok company_name ticker edate actual now rest
                        (updated_data(StrKey author_id \<mapsto> d'))
                 else Inl OSError))"

text \<open>
  \<open>add_contrarian_analysis\<close>, from the table that \<open>_load_existing_data\<close> returned to the
  table that \<open>_save_master_database\<close> writes.
\<close>

definition add_contrarian_analysis ::
  "(string \<Rightarrow> bool) \<Rightarrow> report_data \<Rightarrow> contrarian list \<Rightarrow> string \<Rightarrow> ledger
     \<Rightarrow> py_error + ledger" where
  "add_contrarian_analysis history_ok report contrarians now existing_data =
     (let company_name = (case company report of None \<Rightarrow> ''Unknown'' | Some s \<Rightarrow> s);
          ticker = (case symbol report of None \<Rightarrow> ''UNK'' | Some s \<Rightarrow> s);
          edate = (case earnings_date report of None \<Rightarrow> [] | Some s \<Rightarrow> s)
      in merge_contrarians history_ok company_name ticker edate (actual_result report) now
           contrarians existing_data)"

text \<open>
  What \<open>_load_existing_data\<close> can return for a table that \<open>_save_master_database\<close> wrote.
  The writer puts \<open>None\<close> as an empty cell, and pandas reads an empty cell as NaN; a number
  comes back as the number it was. The text cells and the key of a row come back as pandas
  infers the type of their columns, which depends on the other rows, so they are left
  open here; and a row can be missing from the loaded table (two keys that are read back
  as the same number keep the later row only; an exception while reading leaves the rows
  read so far).
\<close>

definition reload_rate :: "py_float option \<Rightarrow> py_float option" where
  "reload_rate r = (case r of None \<Rightarrow> Some NaN | Some x \<Rightarrow> Some x)"

definition reloaded_row :: "author_data \<Rightarrow> author_data \<Rightarrow> bool" where
  "reloaded_row saved loaded \<longleftrightarrow>
     Total_Earnings_Calls loaded = Total_Earnings_Calls saved \<and>
     Total_Companies_Covered loaded = Total_Companies_Covered saved \<and>
     Total_Contrarian_Instances loaded = Total_Contrarian_Instances saved \<and>
     Successful_Contrarian_Calls loaded = Successful_Contrarian_Calls saved \<and>
     Failed_Contrarian_Calls loaded = Failed_Contrarian_Calls saved \<and>
     Repeat_Contrarian_Count loaded = Repeat_Contrarian_Count saved \<and>
     Overall_Contrarian_Score loaded = Overall_Contrarian_Score saved \<and>
     Average_Contrarian_Score_Per_Call loaded = Average_Contrarian_Score_Per_Call saved \<and>
     Consistency_Score loaded = Consistency_Score saved \<and>
     Contrarian_Success_Rate loaded = reload_rate (Contrarian_Success_Rate saved)"

definition load_existing_data :: "ledger \<Rightarrow> ledger \<Rightarrow> bool" where
  "load_existing_data saved loaded \<longleftrightarrow>
     (\<forall>k' d'. loaded k' = Some d' \<longrightarrow> (\<exists>k d. saved k = Some d \<and> reloaded_row d d'))"

text \<open>
  The tables that the program can save: the empty table of a fresh database, and the
  result of every successful \<open>add_contrarian_analysis\<close> on a table loaded from a saved one.
\<close>

inductive reachable :: "ledger \<Rightarrow> bool" where
  fresh: "reachable Map.empty"
| merged: "reachable saved \<Longrightarrow> load_existing_data saved loaded
            \<Longrightarrow> add_contrarian_analysis history_ok report contrarians now loaded = Inr saved'
            \<Longrightarrow> reachable saved'"

text \<open>The success and failure counters under a key; both 0 while the key has no row.\<close>

definition success_failure :: "ledger \<Rightarrow> row_key \<Rightarrow> int \<times> int" where
  "success_failure L k =
     (case L k of
        None \<Rightarrow> (0, 0)
      | Some d \<Rightarrow> (Successful_Contrarian_Calls d, Failed_Contrarian_Calls d))"

section \<open>The analyzers (contrarian\_earnings\_analyzer\_production.py, simplified\_contrarian\_analyzer.py)\<close>

text \<open>
  The LLM analysis of an article: \<open>sentiment\<close> and \<open>earnings_prediction\<close> are read with
  \<open>[...]\<close>, the other keys with \<open>.get\<close>. An article whose analysis is \<open>None\<close> is dropped.
\<close>

record analysis =
  analysis_sentiment :: string
  analysis_earnings_prediction :: string
  analysis_confidence :: "string option"
  analysis_prediction_confidence :: "string option"
  analysis_reasoning :: "string option"
  analysis_key_concerns :: "string list option"
  analysis_contrarian_indicators :: "string list option"

record article =
  article_author :: string
  article_headline :: string
  article_date :: string
  article_url :: string
  article_section :: "string option"
  article_word_count :: "int option"
  article_company :: "string option"
  article_symbol :: "string option"
  article_earnings_date :: "string option"
  article_analysis :: "analysis option"

text \<open>The dict that \<open>get_actual_earnings_result\<close> returns (the keys the analyzers read).\<close>

record earnings_result =
  price_change_percent :: rat
  result :: string

text \<open>One entry of the list that the production \<open>identify_contrarians\<close> returns.\<close>

record finding =
  finding_author :: string
  finding_headline :: string
  finding_date :: string
  finding_url :: string
  finding_section :: string
  finding_word_count :: int
  finding_sentiment :: string
  finding_prediction :: string
  finding_sentiment_percentage :: rat
  finding_prediction_percentage :: rat
  finding_was_minority_sentiment :: bool
  finding_was_minority_prediction :: bool
  finding_sentiment_correct :: bool
  finding_prediction_correct :: bool
  finding_contrarian_score :: rat
  finding_reasoning :: string
  finding_key_concerns :: "string list"
  finding_confidence :: string
  finding_prediction_confidence :: string
  finding_contrarian_indicators :: "string list"
  finding_actual_result_available :: bool

definition get_or :: "'a \<Rightarrow> 'a option \<Rightarrow> 'a" where
  "get_or dflt v = (case v of None \<Rightarrow> dflt | Some x \<Rightarrow> x)"

definition valid_articles :: "article list \<Rightarrow> (article \<times> analysis) list" where
  "valid_articles analyzed_articles =
     List.map_filter (\<lambda>a. map_option (Pair a) (article_analysis a)) analyzed_articles"

definition actual_sentiment :: "earnings_result \<Rightarrow> string" where
  "actual_sentiment r =
     (if price_change_percent r > 3 then ''bullish''
      else if price_change_percent r < - 3 then ''bearish''
      else ''neutral'')"

text \<open>
  The correctness check of the loop body:
  \<open>(was_correct, sentiment_correct, prediction_correct)\<close>, all \<open>False\<close> without a result.
\<close>

definition check_correctness :: "string \<Rightarrow> string \<Rightarrow> earnings_result option \<Rightarrow> bool \<times> bool \<times> bool" where
  "check_correctness author_sentiment author_prediction actual =
     (case actual of
        None \<Rightarrow> (False, False, False)
      | Some r \<Rightarrow>
          (let sentiment_correct = (author_sentiment = actual_sentiment r);
               prediction_correct = (author_prediction = result r)
           in (sentiment_correct \<or> prediction_correct, sentiment_correct, prediction_correct)))"

definition confidence_bonus :: "string option \<Rightarrow> rat" where
  "confidence_bonus c = (if c = Some ''high'' then 20 else if c = Some ''medium'' then 10 else 5)"

definition base_score :: "rat \<Rightarrow> string option \<Rightarrow> bool \<Rightarrow> rat" where
  "base_score percentage conf correct_with_result =
     (let minority_factor = (1 - percentage) * 100;
          bonus = confidence_bonus conf;
          base = minority_factor + bonus
      in if correct_with_result then base * (3 / 2) else base)"

text \<open>
  The body of the loop over the valid articles: the finding it appends, if any. The
  division is by the number of valid articles, which is positive inside the loop.
\<close>

definition contrarian_of_article ::
  "(string \<Rightarrow> nat) \<Rightarrow> (string \<Rightarrow> nat) \<Rightarrow> nat \<Rightarrow> earnings_result option \<Rightarrow> article \<times> analysis
     \<Rightarrow> finding list" where
  "contrarian_of_article sentiment_counts prediction_counts total_articles actual aa =
     (let art = fst aa; an = snd aa;
          author_sentiment = analysis_sentiment an;
          author_prediction = analysis_earnings_prediction an;
          sentiment_percentage = of_nat (sentiment_counts author_sentiment) / of_nat total_articles;
          prediction_percentage = of_nat (prediction_counts author_prediction) / of_nat total_articles;
          is_minority_sentiment = (sentiment_percentage < 4 / 10);
          is_minority_prediction = (prediction_percentage < 4 / 10);
          sentiment_correct = fst (snd (check_correctness author_sentiment author_prediction actual));
          prediction_correct = snd (snd (check_correctness author_sentiment author_prediction actual))
      in if is_minority_sentiment \<or> is_minority_prediction
         then
           (let score0 = 0;
                score1 = (if is_minority_sentiment
                          then score0 + base_score sentiment_percentage (analysis_confidence an)
                                          (actual \<noteq> None \<and> sentiment_correct)
                          else score0);
                score2 = (if is_minority_prediction
                          then score1 + base_score prediction_percentage (analysis_prediction_confidence an)
                                          (actual \<noteq> None \<and> prediction_correct)
                          else score1)
            in [\<lparr>finding_author = article_author art,
                 finding_headline = article_headline art,
                 finding_date = article_date art,
                 finding_url = article_url art,
                 finding_section = get_or ''N/A'' (article_section art),
                 finding_word_count = get_or 0 (article_word_count art),
                 finding_sentiment = author_sentiment,
                 finding_prediction = author_prediction,
                 finding_sentiment_percentage = py_round (sentiment_percentage * 100) 1,
                 finding_prediction_percentage = py_round (prediction_percentage * 100) 1,
                 finding_was_minority_sentiment = is_minority_sentiment,
                 finding_was_minority_prediction = is_minority_prediction,
                 finding_sentiment_correct = sentiment_correct,
                 finding_prediction_correct = prediction_correct,
                 finding_contrarian_score = py_round score2 2,
                 finding_reasoning = get_or [] (analysis_reasoning an),
                 finding_key_concerns = get_or [] (analysis_key_concerns an),
                 finding_confidence = get_or ''unknown'' (analysis_confidence an),
                 finding_prediction_confidence = get_or ''unknown'' (analysis_prediction_confidence an),
                 finding_contrarian_indicators = get_or [] (analysis_contrarian_indicators an),
                 finding_actual_result_available = (actual \<noteq> None)\<rparr>])
         else [])"

text \<open>
  The production \<open>identify_contrarians\<close>. The two \<open>Counter\<close>s are only read by key, so
  they are the counting functions of the two lists; the final sort is Python's stable sort
  by descending score.
\<close>

definition identify_contrarians :: "article list \<Rightarrow> earnings_result option \<Rightarrow> finding list" where
  "identify_contrarians analyzed_articles actual =
     (let valid = valid_articles analyzed_articles
      in if valid = [] then []
         else
           (let sentiment_counts = count_list (map (analysis_sentiment \<circ> snd) valid);
                prediction_counts = count_list (map (analysis_earnings_prediction \<circ> snd) valid);
                total_articles = length valid
            in sort_key (\<lambda>f. - finding_contrarian_score f)
                 (concat (map (contrarian_of_article sentiment_counts prediction_counts
                                 total_articles actual) valid))))"

text \<open>The \<open>ContrarianRecord\<close> dataclass of the simplified analyzer.\<close>

record contrarian_record =
  record_author :: string
  record_company :: string
  record_symbol :: string
  record_earnings_date :: string
  record_prediction :: string
  record_sentiment :: string
  record_was_contrarian :: bool
  record_was_correct :: bool
  record_actual_result :: string
  record_date_analyzed :: string
  record_headline :: string
  record_url :: string

text \<open>
  \<open>Counter(xs).most_common(1)\<close>: the keys in the order of their first occurrence, and the
  first one of the highest count; the empty list for an empty counter.
\<close>

fun first_max :: "(string \<Rightarrow> nat) \<Rightarrow> string \<Rightarrow> string list \<Rightarrow> string" where
  "first_max cnt best [] = best"
| "first_max cnt best (k # ks) = first_max cnt (if cnt best < cnt k then k else best) ks"

definition most_common_1 :: "string list \<Rightarrow> (string \<times> nat) list" where
  "most_common_1 xs =
     (case rev (remdups (rev xs)) of
        [] \<Rightarrow> []
      | k # ks \<Rightarrow> (let b = first_max (count_list xs) k ks in [(b, count_list xs b)]))"

text \<open>The simplified \<open>identify_contrarians\<close>; \<open>today\<close> is the date read from the clock.\<close>

definition simplified_identify_contrarians ::
  "article list \<Rightarrow> earnings_result option \<Rightarrow> string \<Rightarrow> py_error + contrarian_record list" where
  "simplified_identify_contrarians analyzed_articles actual today =
     (let valid = valid_articles analyzed_articles
      in if valid = [] then Inr []
         else
           (case (most_common_1 (map (analysis_sentiment \<circ> snd) valid),
                  most_common_1 (map (analysis_earnings_prediction \<circ> snd) valid)) of
              ((consensus_sentiment, _) # _, (consensus_prediction, _) # _) \<Rightarrow>
                Inr (map (\<lambda>aa.
                  (let art = fst aa; an = snd aa;
                       is_contrarian = (analysis_sentiment an \<noteq> consensus_sentiment
                                        \<or> analysis_earnings_prediction an \<noteq> consensus_prediction);
                       was_correct = fst (check_correctness (analysis_sentiment an)
                                            (analysis_earnings_prediction an) actual)
                   in \<lparr>record_author = article_author art,
                       record_company = get_or [] (article_company art),
                       record_symbol = get_or [] (article_symbol art),
                       record_earnings_date = get_or [] (article_earnings_date art),
                       record_prediction = analysis_earnings_prediction an,
                       record_sentiment = analysis_sentiment an,
                       record_was_contrarian = is_contrarian,
                       record_was_correct = was_correct,
                       record_actual_result = (case actual of None \<Rightarrow> ''unknown'' | Some r \<Rightarrow> result r),
                       record_date_analyzed = today,
                       record_headline = article_headline art,
                       record_url = article_url art\<rparr>)) valid)
            | _ \<Rightarrow> Inl IndexError))"

text \<open>The risk tier in the words of the specification (section 4.4, step 8).\<close>

datatype risk_tier = unknown | low_risk | high_risk | medium_risk

definition risk_tier_of :: "rat option \<Rightarrow> int \<Rightarrow> rat \<Rightarrow> risk_tier" where
  "risk_tier_of success_rate instances consistency =
     (case success_rate of
        None \<Rightarrow> unknown
      | Some rate \<Rightarrow>
          if instances < 2 then unknown
          else if rate \<ge> 70 \<and> instances \<ge> 3 then low_risk
          else if rate < 30 \<or> consistency < 20 then high_risk
          else medium_risk)"

definition risk_label :: "risk_tier \<Rightarrow> string" where
  "risk_label t =
     (case t of unknown \<Rightarrow> ''Unknown'' | low_risk \<Rightarrow> ''Low_Risk''
      | high_risk \<Rightarrow> ''High_Risk'' | medium_risk \<Rightarrow> ''Medium_Risk'')"

text \<open>
  The share of a category in a batch, and the contribution of one dimension to the score:
  nothing for a dimension that is not minority, otherwise \<open>(1 - share) * 100\<close> plus the bonus,
  times 1.5 when the dimension is correct and a result exists.
\<close>

definition share :: "string list \<Rightarrow> string \<Rightarrow> rat" where
  "share xs x = of_nat (count_list xs x) / of_nat (length xs)"

definition dimension_contribution :: "bool \<Rightarrow> rat \<Rightarrow> rat \<Rightarrow> bool \<Rightarrow> rat" where
  "dimension_contribution minority sh bonus correct_with_outcome =
     (if minority then ((1 - sh) * 100 + bonus) * (if correct_with_outcome then 3 / 2 else 1) else 0)"

text \<open>
  The confidence bonus read from the label a finding carries (the label is \<open>'unknown'\<close> when
  the analysis had none), and the bonus in the words of the specification, which gives 0
  to an absent confidence.
\<close>

definition label_bonus :: "string \<Rightarrow> rat" where
  "label_bonus l = (if l = ''high'' then 20 else if l = ''medium'' then 10 else 5)"

definition claimed_bonus :: "string option \<Rightarrow> rat" where
  "claimed_bonus c =
     (if c = Some ''high'' then 20 else if c = Some ''medium'' then 10
      else if c = Some ''low'' then 5 else 0)"

text \<open>
  The verdict of the ledger on a lower-cased prediction and a lower-cased result: the
  prediction alone decides, the sentiment plays no part.
\<close>

definition ledger_verdict :: "string \<Rightarrow> string \<Rightarrow> bool option" where
  "ledger_verdict prediction outcome =
     (if prediction = outcome \<and> prediction \<in> {''beat'', ''miss'', ''meet''} then Some True
      else if prediction \<noteq> [] \<and> outcome \<noteq> [] then Some False
      else None)"

section \<open>Invariants of the ledger and sample data\<close>

text \<open>The number cells of a row that the counting steps read and write.\<close>

definition core :: "author_data \<Rightarrow> int \<times> int \<times> int \<times> int \<times> py_float option \<times> rat" where
  "core d = (Total_Earnings_Calls d, Total_Contrarian_Instances d,
             Successful_Contrarian_Calls d, Failed_Contrarian_Calls d,
             Contrarian_Success_Rate d, Consistency_Score d)"

text \<open>
  What every row of a reachable table satisfies: appearances and contrarian instances are
  the same positive number, and the consistency score is 100.
\<close>

definition row_ok :: "author_data \<Rightarrow> bool" where
  "row_ok d \<longleftrightarrow>
     Total_Earnings_Calls d = Total_Contrarian_Instances d \<and>
     1 \<le> Total_Contrarian_Instances d \<and>
     Consistency_Score d = 100"

definition ledger_ok :: "ledger \<Rightarrow> bool" where
  "ledger_ok L \<longleftrightarrow> (\<forall>k d. L k = Some d \<longrightarrow> row_ok d)"

text \<open>The id under which \<open>add_contrarian_analysis\<close> files a contrarian dict.\<close>

definition author_id_of :: "contrarian \<Rightarrow> string" where
  "author_id_of c = generate_author_id (case author c of None \<Rightarrow> ''Unknown'' | Some a \<Rightarrow> a)"

text \<open>A first sighting, as in the sample data of demo\_master\_contrarian\_tracking.py.\<close>

definition demo_contrarian :: contrarian where
  "demo_contrarian =
     \<lparr>author = Some ''John Smith'', earnings_prediction = Some ''beat'',
      contrarian_score = Some (17 / 2), was_minority_sentiment = Some True,
      was_minority_prediction = Some True\<rparr>"

definition demo_report :: report_data where
  "demo_report =
     \<lparr>company = Some ''Apple Inc.'', symbol = Some ''AAPL'',
      earnings_date = Some ''2024-01-25'', actual_result = Some (Some ''beat'')\<rparr>"

definition demo_row :: author_data where
  "demo_row =
     create_new_author_record ''John Smith'' ''john_smith'' ''Apple Inc.'' ''AAPL'' ''2024-01-25''
       ''Both_Sentiment_Prediction'' (Some True) (17 / 2) ''2024-02-01 09:00:00''"

definition demo_ledger :: ledger where
  "demo_ledger = Map.empty(StrKey ''john_smith'' \<mapsto> demo_row)"

definition demo_other :: contrarian where
  "demo_other =
     \<lparr>author = Some ''Sarah Johnson'', earnings_prediction = Some ''miss'',
      contrarian_score = Some (36 / 5), was_minority_sentiment = Some False,
      was_minority_prediction = Some True\<rparr>"

definition ann_contrarian :: contrarian where
  "ann_contrarian =
     \<lparr>author = Some ''Ann'', earnings_prediction = Some ''miss'',
      contrarian_score = Some (255 / 2), was_minority_sentiment = Some True,
      was_minority_prediction = Some False\<rparr>"

definition unresolved_report :: report_data where
  "unresolved_report =
     \<lparr>company = Some ''Apple Inc.'', symbol = Some ''AAPL'',
      earnings_date = Some ''2024-10-31'', actual_result = None\<rparr>"

text \<open>A row whose appearances were edited by hand to 3, with one contrarian instance.\<close>

definition edited_row :: author_data where
  "edited_row = demo_row\<lparr>Total_Earnings_Calls := 3\<rparr>"

text \<open>
  An author whose call has no resolved outcome: the row that the first merge saves, and
  the same row as \<open>pd.read_csv\<close> returns it at the next merge, the empty success rate read
  as NaN and every other cell as it was written.
\<close>

definition jane_contrarian :: contrarian where
  "jane_contrarian =
     \<lparr>author = Some ''Jane Doe'', earnings_prediction = Some ''beat'',
      contrarian_score = Some 80, was_minority_sentiment = Some True,
      was_minority_prediction = Some False\<rparr>"

definition jane_saved_row :: author_data where
  "jane_saved_row =
     create_new_author_record ''Jane Doe'' ''jane_doe'' ''Apple Inc.'' ''AAPL'' ''2024-10-31''
       ''Sentiment_Only'' None 80 ''2024-11-01 09:00:00''"

definition jane_loaded_row :: author_data where
  "jane_loaded_row = jane_saved_row\<lparr>Contrarian_Success_Rate := Some NaN\<rparr>"

text \<open>
  An author whose name is \<open>007\<close>: the row that the first merge saves under the key \<open>'007'\<close>,
  and the row as \<open>pd.read_csv\<close> returns it when it is the only row of the table: the id and
  the name columns hold digits only and are read as integers, so the key is the number 7.
\<close>

definition agent_contrarian :: contrarian where
  "agent_contrarian =
     \<lparr>author = Some ''007'', earnings_prediction = Some ''beat'',
      contrarian_score = Some (17 / 2), was_minority_sentiment = Some True,
      was_minority_prediction = Some True\<rparr>"

definition agent_saved_row :: author_data where
  "agent_saved_row =
     create_new_author_record ''007'' ''007'' ''Apple Inc.'' ''AAPL'' ''2024-01-25''
       ''Both_Sentiment_Prediction'' (Some True) (17 / 2) ''2024-02-01 09:00:00''"

definition agent_loaded_row :: author_data where
  "agent_loaded_row =
     agent_saved_row\<lparr>Author_ID := Float (Num 7), Author_Name := Float (Num 7)\<rparr>"

text \<open>Analyzed articles: five opinions with one bullish voice, and three smaller batches.\<close>

definition sample_article :: "string \<Rightarrow> string \<Rightarrow> string \<Rightarrow> string option \<Rightarrow> article" where
  "sample_article who sent pred conf =
     \<lparr>article_author = who, article_headline = ''Ahead of the results'',
      article_date = ''2024-10-20'', article_url = ''https://example.org/a'',
      article_section = None, article_word_count = None, article_company = None,
      article_symbol = None, article_earnings_date = None,
      article_analysis =
        Some \<lparr>analysis_sentiment = sent, analysis_earnings_prediction = pred,
              analysis_confidence = conf, analysis_prediction_confidence = conf,
              analysis_reasoning = None, analysis_key_concerns = None,
              analysis_contrarian_indicators = None\<rparr>\<rparr>"

definition sample_batch :: "article list" where
  "sample_batch =
     [sample_article ''Ann'' ''bullish'' ''miss'' None,
      sample_article ''Bob'' ''bearish'' ''miss'' (Some ''high''),
      sample_article ''Cat'' ''bearish'' ''miss'' (Some ''low''),
      sample_article ''Dan'' ''bearish'' ''miss'' None,
      sample_article ''Eve'' ''bearish'' ''miss'' (Some ''medium'')]"

definition resolved_batch :: "article list" where
  "resolved_batch =
     [sample_article ''Ann'' ''bullish'' ''beat'' (Some ''high''),
      sample_article ''Bob'' ''bearish'' ''miss'' (Some ''high''),
      sample_article ''Cat'' ''bearish'' ''miss'' (Some ''low''),
      sample_article ''Dan'' ''bearish'' ''miss'' None,
      sample_article ''Eve'' ''neutral'' ''meet'' (Some ''medium'')]"

definition resolved_outcome :: earnings_result where
  "resolved_outcome = \<lparr>price_change_percent = 5, result = ''beat''\<rparr>"

definition small_batch :: "article list" where
  "small_batch =
     [sample_article ''Ann'' ''bullish'' ''miss'' None,
      sample_article ''Bob'' ''bearish'' ''miss'' (Some ''high''),
      sample_article ''Cat'' ''bearish'' ''miss'' (Some ''low'')]"

definition one_opinion_batch :: "article list" where
  "one_opinion_batch =
     [sample_article ''Ann'' ''bullish'' ''miss'' None,
      (sample_article ''Bob'' ''bearish'' ''beat'' None)\<lparr>article_analysis := None\<rparr>]"

section \<open>Properties\<close>

subsection \<open>Rounding\<close>

lemma round_half_even_lower: "of_int a \<le> q \<Longrightarrow> a \<le> round_half_even q"
  unfolding round_half_even_def Let_def
  by (auto simp: le_floor_iff intro: order_trans[where y="\<lfloor>q\<rfloor>"])

lemma round_half_even_upper:
  assumes "q \<le> of_int b" shows "round_half_even q \<le> b"
proof -
  have fl: "\<lfloor>q\<rfloor> \<le> b" using assms by (simp add: floor_le_iff)
  show ?thesis
  proof (cases "q - of_int \<lfloor>q\<rfloor> < 1 / 2")
    case True
    then show ?thesis using fl by (simp add: round_half_even_def Let_def)
  next
    case False
    then have "q \<noteq> of_int b" by auto
    with assms have "q < of_int b" by simp
    then have "\<lfloor>q\<rfloor> < b" by (simp add: floor_less_iff)
    then have "\<lfloor>q\<rfloor> + 1 \<le> b" by simp
    then show ?thesis using fl by (simp add: round_half_even_def Let_def)
  qed
qed

lemma round_half_even_of_int: "round_half_even (of_int k) = k"
  by (simp add: round_half_even_def)

lemma py_round_range_1:
  assumes "0 \<le> x" "x \<le> 100"
  shows "0 \<le> py_round x 1 \<and> py_round x 1 \<le> 100"
proof -
  have "of_int 0 \<le> x * 10" using assms by simp
  then have lo: "0 \<le> round_half_even (x * 10)" by (rule round_half_even_lower)
  have "x * 10 \<le> of_int 1000" using assms by simp
  then have hi: "round_half_even (x * 10) \<le> 1000" by (rule round_half_even_upper)
  have "(of_int (round_half_even (x * 10)) :: rat) \<le> of_int 1000"
    using hi by (simp only: of_int_le_iff)
  with lo show ?thesis by (simp add: py_round_def)
qed

lemma py_round_100: "py_round 100 (Suc 0) = 100"
  using round_half_even_of_int[of 1000] by (simp add: py_round_def)

lemma round_half_even_near: "\<bar>of_int (round_half_even q) - q\<bar> \<le> 1 / 2"
proof -
  have lo: "of_int \<lfloor>q\<rfloor> \<le> q" and hi: "q < of_int \<lfloor>q\<rfloor> + 1"
    by linarith+
  show ?thesis
    unfolding round_half_even_def Let_def using lo hi by (auto simp: abs_le_iff)
qed

lemma py_round_near_1: "\<bar>py_round x 1 - x\<bar> \<le> 1 / 20"
proof -
  have "\<bar>of_int (round_half_even (x * 10)) - x * 10\<bar> \<le> 1 / 2"
    by (rule round_half_even_near)
  then show ?thesis by (simp add: py_round_def abs_le_iff field_simps)
qed

lemma py_round_near_2: "\<bar>py_round x 2 - x\<bar> \<le> 1 / 200"
proof -
  have "\<bar>of_int (round_half_even (x * 100)) - x * 100\<bar> \<le> 1 / 2"
    by (rule round_half_even_near)
  then show ?thesis by (simp add: py_round_def abs_le_iff field_simps)
qed

subsection \<open>The update steps and the merge loop\<close>

lemma bind_err_Inr: "bind_err r f = Inr y \<Longrightarrow> \<exists>v. r = Inr v \<and> f v = Inr y"
  by (cases r) (simp_all add: bind_err_def)

lemma update_basic_counts_core:
  "core (update_basic_counts d) =
     (Total_Earnings_Calls d + 1, Total_Contrarian_Instances d + 1,
      Successful_Contrarian_Calls d, Failed_Contrarian_Calls d,
      Contrarian_Success_Rate d, Consistency_Score d)"
  by (simp add: core_def update_basic_counts_def)

lemma update_company_tracking_core:
  "update_company_tracking c d = Inr d' \<Longrightarrow> core d' = core d"
  by (auto simp: update_company_tracking_def core_def dest!: bind_err_Inr split: if_splits)

lemma update_accuracy_tracking_core:
  "core (update_accuracy_tracking w d) =
     (Total_Earnings_Calls d, Total_Contrarian_Instances d,
      Successful_Contrarian_Calls d + (if w = Some True then 1 else 0),
      Failed_Contrarian_Calls d + (if w = Some False then 1 else 0),
      Contrarian_Success_Rate d, Consistency_Score d)"
  by (auto simp: core_def update_accuracy_tracking_def split: option.splits bool.splits)

lemma calculate_success_rate_core:
  "calculate_success_rate d = Inr d' \<Longrightarrow>
     core d' =
       (Total_Earnings_Calls d, Total_Contrarian_Instances d,
        Successful_Contrarian_Calls d, Failed_Contrarian_Calls d,
        (if 0 < Successful_Contrarian_Calls d + Failed_Contrarian_Calls d
         then Some (Num (py_round (of_int (Successful_Contrarian_Calls d)
                 / of_int (Successful_Contrarian_Calls d + Failed_Contrarian_Calls d) * 100) 1))
         else Contrarian_Success_Rate d),
        Consistency_Score d)"
  by (auto simp: calculate_success_rate_def Let_def bind_err_def py_truediv_def core_def
        split: if_splits)

text \<open>
  The division of the success rate is guarded: the step raises nothing, and the rate it
  computes from counters that are not negative lies between 0 and 100.
\<close>

lemma calculate_success_rate_returns: "\<exists>d'. calculate_success_rate d = Inr d'"
  by (simp add: calculate_success_rate_def Let_def bind_err_def py_truediv_def)

lemma calculate_success_rate_range:
  assumes s: "0 \<le> Successful_Contrarian_Calls d" and f: "0 \<le> Failed_Contrarian_Calls d"
    and pos: "0 < Successful_Contrarian_Calls d + Failed_Contrarian_Calls d"
    and run: "calculate_success_rate d = Inr d'"
  shows "\<exists>r. Contrarian_Success_Rate d' = Some (Num r) \<and> 0 \<le> r \<and> r \<le> 100"
proof -
  define t :: rat where
    "t = of_int (Successful_Contrarian_Calls d)
           / of_int (Successful_Contrarian_Calls d + Failed_Contrarian_Calls d)"
  define q :: rat where "q = t * 100"
  have tpos: "(0::rat) < of_int (Successful_Contrarian_Calls d + Failed_Contrarian_Calls d)"
    using pos by simp
  have num0: "(0::rat) \<le> of_int (Successful_Contrarian_Calls d)" using s by simp
  have le: "(of_int (Successful_Contrarian_Calls d) :: rat)
              \<le> of_int (Successful_Contrarian_Calls d + Failed_Contrarian_Calls d)"
    using f by simp
  have t1: "t \<le> 1" unfolding t_def using le tpos by (simp only: divide_le_eq_1_pos)
  have t0: "0 \<le> t" unfolding t_def using num0 tpos by (simp only: zero_le_divide_iff) simp
  have q0: "0 \<le> q" and q100: "q \<le> 100" using t0 t1 by (simp_all add: q_def)
  from calculate_success_rate_core[OF run] pos
  have "Contrarian_Success_Rate d' = Some (Num (py_round q 1))"
    by (simp add: core_def q_def t_def)
  with py_round_range_1[OF q0 q100] show ?thesis by blast
qed

lemma update_scores_core: "update_scores sc d = Inr d' \<Longrightarrow> core d' = core d"
  by (auto simp: update_scores_def Let_def bind_err_def py_truediv_def core_def split: if_splits)

lemma update_latest_information_core:
  "core (update_latest_information c s e t w d) = core d"
  by (simp add: update_latest_information_def core_def)

lemma check_repeat_contrarian_core: "core (check_repeat_contrarian d) = core d"
  by (simp add: check_repeat_contrarian_def core_def)

lemma calculate_consistency_core:
  "calculate_consistency d = Inr d' \<Longrightarrow>
     Total_Earnings_Calls d \<noteq> 0 \<and>
     core d' =
       (Total_Earnings_Calls d, Total_Contrarian_Instances d,
        Successful_Contrarian_Calls d, Failed_Contrarian_Calls d,
        Contrarian_Success_Rate d,
        py_round (of_int (Total_Contrarian_Instances d) / of_int (Total_Earnings_Calls d) * 100) 1)"
  by (auto simp: calculate_consistency_def bind_err_def py_truediv_def core_def split: if_splits)

lemma calculate_risk_level_core: "core d' = core d \<Longrightarrow> calculate_risk_level d' = calculate_risk_level d"
  by (simp add: calculate_risk_level_def core_def)

text \<open>What a successful \<open>_update_existing_author\<close> leaves in the number cells of the row.\<close>

lemma update_existing_author_core:
  assumes "update_existing_author d c s e t w sc now = Inr d'"
  shows "Total_Earnings_Calls d + 1 \<noteq> 0"
    and "core d' =
       (Total_Earnings_Calls d + 1, Total_Contrarian_Instances d + 1,
        Successful_Contrarian_Calls d + (if w = Some True then 1 else 0),
        Failed_Contrarian_Calls d + (if w = Some False then 1 else 0),
        (if 0 < Successful_Contrarian_Calls d + (if w = Some True then 1 else 0)
                + (Failed_Contrarian_Calls d + (if w = Some False then 1 else 0))
         then Some (Num (py_round (of_int (Successful_Contrarian_Calls d + (if w = Some True then 1 else 0))
                 / of_int (Successful_Contrarian_Calls d + (if w = Some True then 1 else 0)
                           + (Failed_Contrarian_Calls d + (if w = Some False then 1 else 0))) * 100) 1))
         else Contrarian_Success_Rate d),
        py_round (of_int (Total_Contrarian_Instances d + 1) / of_int (Total_Earnings_Calls d + 1) * 100) 1)"
    and "Risk_Level d' = Str (calculate_risk_level d')"
proof -
  from assms obtain d2 d4 d5 d8 where
    d2: "update_company_tracking c (update_basic_counts d) = Inr d2" and
    d4: "calculate_success_rate (update_accuracy_tracking w d2) = Inr d4" and
    d5: "update_scores sc d4 = Inr d5" and
    d8: "calculate_consistency (check_repeat_contrarian (update_latest_information c s e t w d5)) = Inr d8" and
    d': "d' = d8\<lparr>Risk_Level := Str (calculate_risk_level d8), Last_Updated := Str now\<rparr>"
    unfolding update_existing_author_def by (auto dest!: bind_err_Inr)
  have c2: "core d2 = (Total_Earnings_Calls d + 1, Total_Contrarian_Instances d + 1,
      Successful_Contrarian_Calls d, Failed_Contrarian_Calls d,
      Contrarian_Success_Rate d, Consistency_Score d)"
    using update_company_tracking_core[OF d2] by (simp add: update_basic_counts_core)
  have c4: "core d4 = (Total_Earnings_Calls d + 1, Total_Contrarian_Instances d + 1,
        Successful_Contrarian_Calls d + (if w = Some True then 1 else 0),
        Failed_Contrarian_Calls d + (if w = Some False then 1 else 0),
        (if 0 < Successful_Contrarian_Calls d + (if w = Some True then 1 else 0)
                + (Failed_Contrarian_Calls d + (if w = Some False then 1 else 0))
         then Some (Num (py_round (of_int (Successful_Contrarian_Calls d + (if w = Some True then 1 else 0))
                 / of_int (Successful_Contrarian_Calls d + (if w = Some True then 1 else 0)
                           + (Failed_Contrarian_Calls d + (if w = Some False then 1 else 0))) * 100) 1))
         else Contrarian_Success_Rate d),
        Consistency_Score d)"
    using calculate_success_rate_core[OF d4] update_accuracy_tracking_core[of w d2] c2
    by (simp add: core_def)
  have c7: "core (check_repeat_contrarian (update_latest_information c s e t w d5)) = core d4"
    using update_scores_core[OF d5]
    by (simp add: check_repeat_contrarian_core update_latest_information_core)
  from calculate_consistency_core[OF d8] c7 c4
  have nz: "Total_Earnings_Calls d + 1 \<noteq> 0"
    and c8: "core d8 =
       (Total_Earnings_Calls d + 1, Total_Contrarian_Instances d + 1,
        Successful_Contrarian_Calls d + (if w = Some True then 1 else 0),
        Failed_Contrarian_Calls d + (if w = Some False then 1 else 0),
        (if 0 < Successful_Contrarian_Calls d + (if w = Some True then 1 else 0)
                + (Failed_Contrarian_Calls d + (if w = Some False then 1 else 0))
         then Some (Num (py_round (of_int (Successful_Contrarian_Calls d + (if w = Some True then 1 else 0))
                 / of_int (Successful_Contrarian_Calls d + (if w = Some True then 1 else 0)
                           + (Failed_Contrarian_Calls d + (if w = Some False then 1 else 0))) * 100) 1))
         else Contrarian_Success_Rate d),
        py_round (of_int (Total_Contrarian_Instances d + 1) / of_int (Total_Earnings_Calls d + 1) * 100) 1)"
    by (simp_all add: core_def)
  have same: "core d' = core d8" using d' by (simp add: core_def)
  show "Total_Earnings_Calls d + 1 \<noteq> 0" by (rule nz)
  show "core d' =
       (Total_Earnings_Calls d + 1, Total_Contrarian_Instances d + 1,
        Successful_Contrarian_Calls d + (if w = Some True then 1 else 0),
        Failed_Contrarian_Calls d + (if w = Some False then 1 else 0),
        (if 0 < Successful_Contrarian_Calls d + (if w = Some True then 1 else 0)
                + (Failed_Contrarian_Calls d + (if w = Some False then 1 else 0))
         then Some (Num (py_round (of_int (Successful_Contrarian_Calls d + (if w = Some True then 1 else 0))
                 / of_int (Successful_Contrarian_Calls d + (if w = Some True then 1 else 0)
                           + (Failed_Contrarian_Calls d + (if w = Some False then 1 else 0))) * 100) 1))
         else Contrarian_Success_Rate d),
        py_round (of_int (Total_Contrarian_Instances d + 1) / of_int (Total_Earnings_Calls d + 1) * 100) 1)"
    using same c8 by simp
  show "Risk_Level d' = Str (calculate_risk_level d')"
    using d' calculate_risk_level_core[OF same] by simp
qed

lemma create_new_author_record_ok:
  "row_ok (create_new_author_record n i c s e t w sc now)"
  by (simp add: row_ok_def create_new_author_record_def)

lemma update_existing_author_ok:
  assumes "row_ok d" and "update_existing_author d c s e t w sc now = Inr d'"
  shows "row_ok d'"
proof -
  from assms(1) have eq: "Total_Earnings_Calls d = Total_Contrarian_Instances d"
    and pos: "1 \<le> Total_Contrarian_Instances d" by (simp_all add: row_ok_def)
  have "(of_int (Total_Contrarian_Instances d + 1) :: rat) / of_int (Total_Earnings_Calls d + 1) * 100 = 100"
    using eq pos by simp
  with update_existing_author_core(2)[OF assms(2)] eq pos show ?thesis
    by (simp add: core_def row_ok_def py_round_100)
qed

lemma ledger_ok_upd: "ledger_ok L \<Longrightarrow> row_ok d \<Longrightarrow> ledger_ok (L(k \<mapsto> d))"
  by (simp add: ledger_ok_def)

lemma merge_contrarians_step:
  assumes "merge_contrarians h c s e a now (x # xs) L = Inr L'"
  obtains d' where
    "(case L (StrKey (author_id_of x)) of
        Some d \<Rightarrow> update_existing_author d c s e (determine_contrarian_type x)
                    (evaluate_contrarian_accuracy x a)
                    (case contrarian_score x of None \<Rightarrow> 0 | Some v \<Rightarrow> v) now
      | None \<Rightarrow> Inr (create_new_author_record
                       (case author x of None \<Rightarrow> ''Unknown'' | Some n \<Rightarrow> n) (author_id_of x) c s e
                       (determine_contrarian_type x) (evaluate_contrarian_accuracy x a)
                       (case contrarian_score x of None \<Rightarrow> 0 | Some v \<Rightarrow> v) now)) = Inr d'"
    and "merge_contrarians h c s e a now xs (L(StrKey (author_id_of x) \<mapsto> d')) = Inr L'"
  using assms unfolding author_id_of_def
  by (auto simp: Let_def dest!: bind_err_Inr split: if_splits)

lemma merge_contrarians_ok:
  "ledger_ok L \<Longrightarrow> merge_contrarians h c s e a now cs L = Inr L' \<Longrightarrow> ledger_ok L'"
proof (induction cs arbitrary: L)
  case Nil
  then show ?case by simp
next
  case (Cons x xs)
  from Cons.prems(2) obtain d' where
    d': "(case L (StrKey (author_id_of x)) of
        Some d \<Rightarrow> update_existing_author d c s e (determine_contrarian_type x)
                    (evaluate_contrarian_accuracy x a)
                    (case contrarian_score x of None \<Rightarrow> 0 | Some v \<Rightarrow> v) now
      | None \<Rightarrow> Inr (create_new_author_record
                       (case author x of None \<Rightarrow> ''Unknown'' | Some n \<Rightarrow> n) (author_id_of x) c s e
                       (determine_contrarian_type x) (evaluate_contrarian_accuracy x a)
                       (case contrarian_score x of None \<Rightarrow> 0 | Some v \<Rightarrow> v) now)) = Inr d'"
    and run: "merge_contrarians h c s e a now xs (L(StrKey (author_id_of x) \<mapsto> d')) = Inr L'"
    by (rule merge_contrarians_step)
  have "row_ok d'"
  proof (cases "L (StrKey (author_id_of x))")
    case None
    with d' show ?thesis by (auto simp: create_new_author_record_ok)
  next
    case (Some d)
    with Cons.prems(1) have "row_ok d" by (auto simp: ledger_ok_def)
    with d' Some show ?thesis by (auto intro: update_existing_author_ok)
  qed
  with Cons.prems(1) have "ledger_ok (L(StrKey (author_id_of x) \<mapsto> d'))" by (rule ledger_ok_upd)
  from Cons.IH[OF this run] show ?case .
qed

lemma add_contrarian_analysis_ok:
  "ledger_ok L \<Longrightarrow> add_contrarian_analysis h report cs now L = Inr L' \<Longrightarrow> ledger_ok L'"
  by (auto simp: add_contrarian_analysis_def Let_def intro: merge_contrarians_ok)

lemma reloaded_row_ok: "reloaded_row d d' \<Longrightarrow> row_ok d \<Longrightarrow> row_ok d'"
  by (simp add: reloaded_row_def row_ok_def)

lemma load_existing_data_ok: "load_existing_data saved loaded \<Longrightarrow> ledger_ok saved \<Longrightarrow> ledger_ok loaded"
  unfolding load_existing_data_def ledger_ok_def by (blast intro: reloaded_row_ok)

lemma reachable_ledger_ok: "reachable L \<Longrightarrow> ledger_ok L"
proof (induction rule: reachable.induct)
  case fresh
  then show ?case by (simp add: ledger_ok_def)
next
  case (merged saved loaded history_ok report contrarians now saved')
  from load_existing_data_ok[OF merged.hyps(2) merged.IH] merged.hyps(3)
  show ?case by (rule add_contrarian_analysis_ok)
qed


text \<open>
  Where the success rate is \<open>None\<close> or a number, \<open>_calculate_risk_level\<close> returns the tier of
  the specification: the extra test \<open>success_rate >= 50 and consistency >= 50\<close> of the code
  never changes the result.
\<close>

lemma calculate_risk_level_spec_tier:
  assumes "Contrarian_Success_Rate d \<noteq> Some NaN"
  shows "calculate_risk_level d =
           risk_label (risk_tier_of
             (case Contrarian_Success_Rate d of
                None \<Rightarrow> None | Some NaN \<Rightarrow> None | Some (Num r) \<Rightarrow> Some r)
             (Total_Contrarian_Instances d) (Consistency_Score d))"
  using assms
  by (auto simp: calculate_risk_level_def risk_tier_of_def risk_label_def float_ge_def
        float_lt_def Let_def split: option.splits py_float.splits)

subsection \<open>The analyzers\<close>

lemma demo_other_id: "author_id_of demo_other = ''sarah_johnson''"
  by code_simp

lemma valid_single:
  assumes "length (valid_articles arts) = 1"
  obtains art an where "valid_articles arts = [(art, an)]"
  using assms by (cases "valid_articles arts") auto

lemma single_opinion_production:
  assumes "length (valid_articles analyzed_articles) = 1"
  shows "identify_contrarians analyzed_articles actual = []"
proof -
  from assms obtain art an where v: "valid_articles analyzed_articles = [(art, an)]"
    by (rule valid_single)
  show ?thesis
    by (simp add: identify_contrarians_def v Let_def contrarian_of_article_def)
qed

lemma most_common_1_single: "most_common_1 [x] = [(x, 1)]"
  by (simp add: most_common_1_def)

lemma single_opinion_simplified:
  assumes "length (valid_articles analyzed_articles) = 1"
  shows "\<exists>r. simplified_identify_contrarians analyzed_articles actual today = Inr [r] \<and> \<not> record_was_contrarian r"
proof -
  from assms obtain art an where v: "valid_articles analyzed_articles = [(art, an)]"
    by (rule valid_single)
  show ?thesis
    by (simp add: simplified_identify_contrarians_def v Let_def most_common_1_single)
qed

lemma label_bonus_get_or: "label_bonus (get_or ''unknown'' conf) = confidence_bonus conf"
  by (cases conf) (auto simp: label_bonus_def get_or_def confidence_bonus_def)

lemma base_score_contribution:
  "base_score p conf ok = dimension_contribution True p (confidence_bonus conf) ok"
  by (simp add: base_score_def dimension_contribution_def Let_def)

lemma identify_contrarians_member:
  assumes "f \<in> set (identify_contrarians analyzed_articles actual)"
  obtains aa where "aa \<in> set (valid_articles analyzed_articles)"
    and "f \<in> set (contrarian_of_article
                 (count_list (map (analysis_sentiment \<circ> snd) (valid_articles analyzed_articles)))
                 (count_list (map (analysis_earnings_prediction \<circ> snd) (valid_articles analyzed_articles)))
                 (length (valid_articles analyzed_articles)) actual aa)"
  using assms by (auto simp: identify_contrarians_def Let_def split: if_splits)

lemma simplified_member:
  assumes "simplified_identify_contrarians analyzed_articles actual today = Inr recs" "r \<in> set recs"
  shows "\<exists>aa \<in> set (valid_articles analyzed_articles).
           record_sentiment r = analysis_sentiment (snd aa) \<and>
           record_prediction r = analysis_earnings_prediction (snd aa) \<and>
           record_was_correct r = fst (check_correctness (analysis_sentiment (snd aa))
                                       (analysis_earnings_prediction (snd aa)) actual) \<and>
           record_actual_result r = (case actual of None \<Rightarrow> ''unknown'' | Some a \<Rightarrow> result a)"
  using assms
  by (force simp: simplified_identify_contrarians_def Let_def
        split: if_splits list.splits prod.splits)


lemma resolved_batch_top_score:
  "identify_contrarians resolved_batch (Some resolved_outcome) \<noteq> [] \<and>
   finding_contrarian_score (hd (identify_contrarians resolved_batch (Some resolved_outcome))) = 300"
  by code_simp

lemma one_opinion_valid: "length (valid_articles one_opinion_batch) = 1"
  by code_simp

lemma contrarian_score_rounded:
  assumes "f \<in> set (identify_contrarians analyzed_articles actual)"
  shows "finding_was_minority_sentiment f =
           (share (map (analysis_sentiment \<circ> snd) (valid_articles analyzed_articles)) (finding_sentiment f) < 4 / 10) \<and>
         finding_was_minority_prediction f =
           (share (map (analysis_earnings_prediction \<circ> snd) (valid_articles analyzed_articles)) (finding_prediction f) < 4 / 10) \<and>
         finding_contrarian_score f =
           py_round
             (dimension_contribution (finding_was_minority_sentiment f)
                (share (map (analysis_sentiment \<circ> snd) (valid_articles analyzed_articles)) (finding_sentiment f))
                (label_bonus (finding_confidence f))
                (finding_actual_result_available f \<and> finding_sentiment_correct f)
              + dimension_contribution (finding_was_minority_prediction f)
                (share (map (analysis_earnings_prediction \<circ> snd) (valid_articles analyzed_articles)) (finding_prediction f))
                (label_bonus (finding_prediction_confidence f))
                (finding_actual_result_available f \<and> finding_prediction_correct f)) 2"
proof -
  from assms obtain aa where "aa \<in> set (valid_articles analyzed_articles)"
    and mem: "f \<in> set (contrarian_of_article
                 (count_list (map (analysis_sentiment \<circ> snd) (valid_articles analyzed_articles)))
                 (count_list (map (analysis_earnings_prediction \<circ> snd) (valid_articles analyzed_articles)))
                 (length (valid_articles analyzed_articles)) actual aa)"
    by (rule identify_contrarians_member)
  from mem show ?thesis
    unfolding contrarian_of_article_def Let_def
    by (auto simp: share_def label_bonus_get_or base_score_contribution
          dimension_contribution_def split: if_splits)
qed

subsection \<open>The sample data\<close>

lemma jane_author_id: "author_id_of jane_contrarian = ''jane_doe''"
  by code_simp

lemma agent_author_id: "author_id_of agent_contrarian = ''007''"
  by code_simp

lemma demo_author_id: "author_id_of demo_contrarian = ''john_smith''"
  by code_simp

lemma jane_reloaded: "reloaded_row jane_saved_row jane_loaded_row"
  by (simp add: reloaded_row_def jane_loaded_row_def jane_saved_row_def reload_rate_def
        create_new_author_record_def)

lemma agent_reloaded: "reloaded_row agent_saved_row agent_loaded_row"
  by (simp add: reloaded_row_def agent_loaded_row_def agent_saved_row_def reload_rate_def
        create_new_author_record_def)

lemma first_merge:
  "add_contrarian_analysis (\<lambda>author_id. True) report [c] now Map.empty =
     Inr (Map.empty(StrKey (author_id_of c) \<mapsto>
        create_new_author_record (case author c of None \<Rightarrow> ''Unknown'' | Some n \<Rightarrow> n)
          (author_id_of c)
          (case company report of None \<Rightarrow> ''Unknown'' | Some s \<Rightarrow> s)
          (case symbol report of None \<Rightarrow> ''UNK'' | Some s \<Rightarrow> s)
          (case earnings_date report of None \<Rightarrow> [] | Some s \<Rightarrow> s)
          (determine_contrarian_type c) (evaluate_contrarian_accuracy c (actual_result report))
          (case contrarian_score c of None \<Rightarrow> 0 | Some v \<Rightarrow> v) now))"
  by (simp add: add_contrarian_analysis_def Let_def author_id_of_def bind_err_def)

lemma demo_first_merge:
  "add_contrarian_analysis (\<lambda>author_id. True) demo_report [demo_contrarian] ''2024-02-01 09:00:00''
     Map.empty = Inr demo_ledger"
proof -
  have "evaluate_contrarian_accuracy demo_contrarian (Some (Some ''beat'')) = Some True"
       "determine_contrarian_type demo_contrarian = ''Both_Sentiment_Prediction''"
    by code_simp+
  then show ?thesis
    unfolding first_merge demo_author_id
    by (simp add: demo_ledger_def demo_row_def demo_report_def demo_contrarian_def)
qed

lemma jane_first_merge:
  "add_contrarian_analysis (\<lambda>author_id. True) unresolved_report [jane_contrarian]
     ''2024-11-01 09:00:00'' Map.empty = Inr (Map.empty(StrKey ''jane_doe'' \<mapsto> jane_saved_row))"
proof -
  have "evaluate_contrarian_accuracy jane_contrarian None = None"
       "determine_contrarian_type jane_contrarian = ''Sentiment_Only''"
    by code_simp+
  then show ?thesis
    unfolding first_merge jane_author_id
    by (simp add: jane_saved_row_def unresolved_report_def jane_contrarian_def)
qed

lemma agent_first_merge:
  "add_contrarian_analysis (\<lambda>author_id. True) demo_report [agent_contrarian]
     ''2024-02-01 09:00:00'' Map.empty = Inr (Map.empty(StrKey ''007'' \<mapsto> agent_saved_row))"
proof -
  have "evaluate_contrarian_accuracy agent_contrarian (Some (Some ''beat'')) = Some True"
       "determine_contrarian_type agent_contrarian = ''Both_Sentiment_Prediction''"
    by code_simp+
  then show ?thesis
    unfolding first_merge agent_author_id
    by (simp add: agent_saved_row_def demo_report_def agent_contrarian_def)
qed

lemma reachable_demo_ledger: "reachable demo_ledger"
proof -
  have "load_existing_data Map.empty Map.empty" by (simp add: load_existing_data_def)
  from reachable.merged[OF reachable.fresh this demo_first_merge] show ?thesis .
qed

lemma demo_ledger_reloaded: "load_existing_data demo_ledger demo_ledger"
  by (auto simp: load_existing_data_def demo_ledger_def reloaded_row_def reload_rate_def
        demo_row_def create_new_author_record_def split: if_splits)

subsection \<open>The claims\<close>

text \<open>
  C1. The risk tier of a row with an undefined success rate is not \<open>unknown\<close> once the row
  has been read back from the file. An author is merged twice without a resolved outcome:
  the first merge saves the row with the success rate \<open>None\<close>, the second loads it with the
  success rate NaN, which passes the guard \<open>success_rate is None\<close> of
  \<open>_calculate_risk_level\<close> and fails every comparison, so with two contrarian instances and
  the consistency 100 the merge stores \<open>Medium_Risk\<close>, where the tier of the
  specification is \<open>unknown\<close>.
\<close>

theorem undefined_rate_after_reload_is_medium_risk:
  "add_contrarian_analysis (\<lambda>author_id. True) unresolved_report [jane_contrarian]
     ''2024-11-01 09:00:00'' Map.empty = Inr (Map.empty(StrKey ''jane_doe'' \<mapsto> jane_saved_row)) \<and>
   reloaded_row jane_saved_row jane_loaded_row \<and>
   (\<exists>L' d'. add_contrarian_analysis (\<lambda>author_id. True) unresolved_report [jane_contrarian]
               ''2024-11-02 09:00:00'' (Map.empty(StrKey ''jane_doe'' \<mapsto> jane_loaded_row)) = Inr L' \<and>
            L' (StrKey ''jane_doe'') = Some d' \<and>
            Total_Contrarian_Instances d' = 2 \<and>
            Consistency_Score d' = 100 \<and>
            Contrarian_Success_Rate d' = Some NaN \<and>
            Risk_Level d' = Str ''Medium_Risk'') \<and>
   risk_label (risk_tier_of None 2 100) = ''Unknown''"
proof -
  have "case add_contrarian_analysis (\<lambda>author_id. True) unresolved_report [jane_contrarian]
               ''2024-11-02 09:00:00'' (Map.empty(StrKey ''jane_doe'' \<mapsto> jane_loaded_row)) of
          Inl e \<Rightarrow> False
        | Inr L' \<Rightarrow>
            (case L' (StrKey ''jane_doe'') of
               None \<Rightarrow> False
             | Some d' \<Rightarrow> Total_Contrarian_Instances d' = 2 \<and> Consistency_Score d' = 100 \<and>
                          Contrarian_Success_Rate d' = Some NaN \<and>
                          Risk_Level d' = Str ''Medium_Risk'')"
    by code_simp
  then have second: "\<exists>L' d'. add_contrarian_analysis (\<lambda>author_id. True) unresolved_report
               [jane_contrarian] ''2024-11-02 09:00:00''
               (Map.empty(StrKey ''jane_doe'' \<mapsto> jane_loaded_row)) = Inr L' \<and>
            L' (StrKey ''jane_doe'') = Some d' \<and>
            Total_Contrarian_Instances d' = 2 \<and>
            Consistency_Score d' = 100 \<and>
            Contrarian_Success_Rate d' = Some NaN \<and>
            Risk_Level d' = Str ''Medium_Risk''"
    by (auto split: sum.splits option.splits)
  have spec: "risk_label (risk_tier_of None 2 100) = ''Unknown''"
    by (simp add: risk_tier_of_def risk_label_def)
  from jane_first_merge jane_reloaded second spec show ?thesis by blast
qed

text \<open>
  C5. Merging the same finding twice does not bring the counters to 2 when the author id
  holds digits only. The first merge of a finding by the author \<open>007\<close> saves one row under
  the key \<open>'007'\<close>; the second merge loads that row under the number 7, does not find the
  \<open>str\<close> \<open>'007'\<close> among the keys and creates a second row, so the table ends with two rows
  whose appearances and contrarian instances are 1 each.
\<close>

theorem numeric_author_id_is_not_found_again:
  "add_contrarian_analysis (\<lambda>author_id. True) demo_report [agent_contrarian]
     ''2024-02-01 09:00:00'' Map.empty = Inr (Map.empty(StrKey ''007'' \<mapsto> agent_saved_row)) \<and>
   reloaded_row agent_saved_row agent_loaded_row \<and>
   Total_Earnings_Calls agent_loaded_row = 1 \<and>
   Total_Contrarian_Instances agent_loaded_row = 1 \<and>
   (\<exists>L' d'. add_contrarian_analysis (\<lambda>author_id. True) demo_report [agent_contrarian]
               ''2024-02-02 09:00:00'' (Map.empty(IntKey 7 \<mapsto> agent_loaded_row)) = Inr L' \<and>
            L' (IntKey 7) = Some agent_loaded_row \<and>
            L' (StrKey ''007'') = Some d' \<and>
            Total_Earnings_Calls d' = 1 \<and>
            Total_Contrarian_Instances d' = 1)"
proof -
  have "case add_contrarian_analysis (\<lambda>author_id. True) demo_report [agent_contrarian]
               ''2024-02-02 09:00:00'' (Map.empty(IntKey 7 \<mapsto> agent_loaded_row)) of
          Inl e \<Rightarrow> False
        | Inr L' \<Rightarrow>
            L' (IntKey 7) = Some agent_loaded_row \<and>
            (case L' (StrKey ''007'') of
               None \<Rightarrow> False
             | Some d' \<Rightarrow> Total_Earnings_Calls d' = 1 \<and> Total_Contrarian_Instances d' = 1)"
    by code_simp
  then have second: "\<exists>L' d'. add_contrarian_analysis (\<lambda>author_id. True) demo_report
               [agent_contrarian] ''2024-02-02 09:00:00''
               (Map.empty(IntKey 7 \<mapsto> agent_loaded_row)) = Inr L' \<and>
            L' (IntKey 7) = Some agent_loaded_row \<and>
            L' (StrKey ''007'') = Some d' \<and>
            Total_Earnings_Calls d' = 1 \<and>
            Total_Contrarian_Instances d' = 1"
    by (auto split: sum.splits option.splits)
  have one: "Total_Earnings_Calls agent_loaded_row = 1" "Total_Contrarian_Instances agent_loaded_row = 1"
    by (simp_all add: agent_loaded_row_def agent_saved_row_def create_new_author_record_def)
  from agent_first_merge agent_reloaded one second show ?thesis by blast
qed

text \<open>
  C7. The success rate of a row without a resolved call is NaN once the row has been read
  back from the file: the row is saved with the success rate \<open>None\<close>, which the file holds
  as an empty cell, and loaded with NaN; a further merge without an outcome leaves the two
  result counters at 0, skips the guarded division and keeps the NaN.
\<close>

theorem undefined_rate_is_nan_after_reload:
  "reloaded_row jane_saved_row jane_loaded_row \<and>
   Contrarian_Success_Rate jane_saved_row = None \<and>
   Successful_Contrarian_Calls jane_loaded_row + Failed_Contrarian_Calls jane_loaded_row = 0 \<and>
   Contrarian_Success_Rate jane_loaded_row = Some NaN \<and>
   (\<exists>d'. update_existing_author jane_loaded_row ''Apple Inc.'' ''AAPL'' ''2024-10-31''
             ''Sentiment_Only'' None 80 ''2024-11-02 09:00:00'' = Inr d' \<and>
         Successful_Contrarian_Calls d' + Failed_Contrarian_Calls d' = 0 \<and>
         Contrarian_Success_Rate d' = Some NaN)"
proof -
  have "case update_existing_author jane_loaded_row ''Apple Inc.'' ''AAPL'' ''2024-10-31''
             ''Sentiment_Only'' None 80 ''2024-11-02 09:00:00'' of
          Inl e \<Rightarrow> False
        | Inr d' \<Rightarrow> Successful_Contrarian_Calls d' + Failed_Contrarian_Calls d' = 0 \<and>
                    Contrarian_Success_Rate d' = Some NaN"
    by code_simp
  then have upd: "\<exists>d'. update_existing_author jane_loaded_row ''Apple Inc.'' ''AAPL'' ''2024-10-31''
             ''Sentiment_Only'' None 80 ''2024-11-02 09:00:00'' = Inr d' \<and>
         Successful_Contrarian_Calls d' + Failed_Contrarian_Calls d' = 0 \<and>
         Contrarian_Success_Rate d' = Some NaN"
    by (auto split: sum.splits)
  have rows: "Contrarian_Success_Rate jane_saved_row = None"
    "Successful_Contrarian_Calls jane_loaded_row + Failed_Contrarian_Calls jane_loaded_row = 0"
    "Contrarian_Success_Rate jane_loaded_row = Some NaN"
    by (simp_all add: jane_loaded_row_def jane_saved_row_def create_new_author_record_def)
  from jane_reloaded rows upd show ?thesis by blast
qed

text \<open>
  C8. In every table that the program can save, the consistency score of every row lies
  between 0 and 100 and equals contrarian instances divided by appearances, times 100,
  exactly: appearances are never 0, and both counts are the same number. The merge computes
  the score from the two counts: for any row whose contrarian instances are between 0 and
  its appearances, a successful update adds 1 to both and stores a score between 0 and 100
  that is the quotient of the new counts times 100, rounded to one decimal (within 0.1 of
  the exact value).
\<close>

theorem consistency_score_exact:
  "(reachable L \<longrightarrow>
      (\<forall>k d. L k = Some d \<longrightarrow>
         0 \<le> Consistency_Score d \<and> Consistency_Score d \<le> 100 \<and>
         Total_Earnings_Calls d \<noteq> 0 \<and>
         Consistency_Score d =
           of_int (Total_Contrarian_Instances d) / of_int (Total_Earnings_Calls d) * 100)) \<and>
   (\<forall>d'. 0 \<le> Total_Contrarian_Instances d \<longrightarrow>
         Total_Contrarian_Instances d \<le> Total_Earnings_Calls d \<longrightarrow>
         update_existing_author d company_name ticker edate contrarian_type was_correct score now
           = Inr d' \<longrightarrow>
         Total_Earnings_Calls d' = Total_Earnings_Calls d + 1 \<and>
         Total_Contrarian_Instances d' = Total_Contrarian_Instances d + 1 \<and>
         0 \<le> Consistency_Score d' \<and> Consistency_Score d' \<le> 100 \<and>
         \<bar>Consistency_Score d'
            - of_int (Total_Contrarian_Instances d') / of_int (Total_Earnings_Calls d') * 100\<bar>
           < 1 / 10)"
proof (intro conjI impI allI)
  fix k d0
  assume "reachable L" and row: "L k = Some d0"
  then have "row_ok d0" using reachable_ledger_ok by (auto simp: ledger_ok_def)
  then show "0 \<le> Consistency_Score d0" "Consistency_Score d0 \<le> 100"
    "Total_Earnings_Calls d0 \<noteq> 0"
    "Consistency_Score d0 =
       of_int (Total_Contrarian_Instances d0) / of_int (Total_Earnings_Calls d0) * 100"
    by (simp_all add: row_ok_def)
next
  fix d'
  assume lo: "0 \<le> Total_Contrarian_Instances d"
    and hi: "Total_Contrarian_Instances d \<le> Total_Earnings_Calls d"
    and run: "update_existing_author d company_name ticker edate contrarian_type was_correct
                score now = Inr d'"
  define r :: rat where
    "r = of_int (Total_Contrarian_Instances d + 1) / of_int (Total_Earnings_Calls d + 1)"
  define q :: rat where "q = r * 100"
  from update_existing_author_core(2)[OF run]
  have calls: "Total_Earnings_Calls d' = Total_Earnings_Calls d + 1"
    and inst: "Total_Contrarian_Instances d' = Total_Contrarian_Instances d + 1"
    and cons: "Consistency_Score d' = py_round q 1"
    by (simp_all add: core_def q_def r_def)
  have pos: "(0::rat) < of_int (Total_Earnings_Calls d + 1)" using lo hi by simp
  have le: "(of_int (Total_Contrarian_Instances d + 1) :: rat) \<le> of_int (Total_Earnings_Calls d + 1)"
    using hi by simp
  have nonneg: "(0::rat) \<le> of_int (Total_Contrarian_Instances d + 1)" using lo by simp
  have r1: "r \<le> 1" unfolding r_def using le pos by (simp only: divide_le_eq_1_pos)
  have r0: "0 \<le> r" unfolding r_def using nonneg pos by (simp only: zero_le_divide_iff) simp
  have q0: "0 \<le> q" and q100: "q \<le> 100" using r0 r1 by (simp_all add: q_def)
  have quot: "of_int (Total_Contrarian_Instances d') / of_int (Total_Earnings_Calls d') * 100 = q"
    unfolding q_def r_def calls inst ..
  show "Total_Earnings_Calls d' = Total_Earnings_Calls d + 1" by (rule calls)
  show "Total_Contrarian_Instances d' = Total_Contrarian_Instances d + 1" by (rule inst)
  show "0 \<le> Consistency_Score d'" "Consistency_Score d' \<le> 100"
    using py_round_range_1[OF q0 q100] cons by simp_all
  have "\<bar>py_round q 1 - q\<bar> \<le> 1 / 20" by (rule py_round_near_1)
  then show "\<bar>Consistency_Score d'
            - of_int (Total_Contrarian_Instances d') / of_int (Total_Earnings_Calls d') * 100\<bar>
           < 1 / 10"
    unfolding quot cons by simp
qed

theorem consistency_score_exact_witness:
  "(\<exists>L d. reachable L \<and> L (StrKey ''john_smith'') = Some d \<and>
          Total_Earnings_Calls d = 2 \<and> Total_Contrarian_Instances d = 2 \<and>
          Consistency_Score d = 100 \<and>
          Consistency_Score d =
            of_int (Total_Contrarian_Instances d) / of_int (Total_Earnings_Calls d) * 100) \<and>
   (\<exists>d'. 0 \<le> Total_Contrarian_Instances edited_row \<and>
         Total_Contrarian_Instances edited_row \<le> Total_Earnings_Calls edited_row \<and>
         update_existing_author edited_row ''Microsoft Corporation'' ''MSFT'' ''2024-01-24''
           ''Both_Sentiment_Prediction'' (Some False) (91 / 10) ''2024-02-02 09:00:00'' = Inr d' \<and>
         Total_Earnings_Calls d' = 4 \<and> Total_Contrarian_Instances d' = 2 \<and>
         Consistency_Score d' = 50 \<and>
         \<bar>Consistency_Score d'
            - of_int (Total_Contrarian_Instances d') / of_int (Total_Earnings_Calls d') * 100\<bar>
           < 1 / 10)"
proof -
  have "case add_contrarian_analysis (\<lambda>author_id. True) demo_report [demo_contrarian]
               ''2024-02-02 09:00:00'' demo_ledger of
          Inl e \<Rightarrow> False
        | Inr L \<Rightarrow>
            (case L (StrKey ''john_smith'') of
               None \<Rightarrow> False
             | Some d \<Rightarrow> Total_Earnings_Calls d = 2 \<and> Total_Contrarian_Instances d = 2)"
    by code_simp
  then obtain L d where
    run: "add_contrarian_analysis (\<lambda>author_id. True) demo_report [demo_contrarian]
            ''2024-02-02 09:00:00'' demo_ledger = Inr L"
    and row: "L (StrKey ''john_smith'') = Some d"
    and two: "Total_Earnings_Calls d = 2" "Total_Contrarian_Instances d = 2"
    by (auto split: sum.splits option.splits)
  have reach: "reachable L"
    using reachable.merged[OF reachable_demo_ledger demo_ledger_reloaded run] .
  from consistency_score_exact[of L] reach row
  have "Consistency_Score d =
          of_int (Total_Contrarian_Instances d) / of_int (Total_Earnings_Calls d) * 100"
    by blast
  with two have "Consistency_Score d = 100" by simp
  with reach row two
  have first: "\<exists>L d. reachable L \<and> L (StrKey ''john_smith'') = Some d \<and>
          Total_Earnings_Calls d = 2 \<and> Total_Contrarian_Instances d = 2 \<and>
          Consistency_Score d = 100 \<and>
          Consistency_Score d =
            of_int (Total_Contrarian_Instances d) / of_int (Total_Earnings_Calls d) * 100"
    by auto
  have bounds: "0 \<le> Total_Contrarian_Instances edited_row"
    "Total_Contrarian_Instances edited_row \<le> Total_Earnings_Calls edited_row"
    by (simp_all add: edited_row_def demo_row_def create_new_author_record_def)
  have "case update_existing_author edited_row ''Microsoft Corporation'' ''MSFT'' ''2024-01-24''
           ''Both_Sentiment_Prediction'' (Some False) (91 / 10) ''2024-02-02 09:00:00'' of
          Inl e \<Rightarrow> False
        | Inr d' \<Rightarrow> Total_Earnings_Calls d' = 4 \<and> Total_Contrarian_Instances d' = 2 \<and>
                    Consistency_Score d' = 50"
    by code_simp
  then obtain d' where
    upd: "update_existing_author edited_row ''Microsoft Corporation'' ''MSFT'' ''2024-01-24''
           ''Both_Sentiment_Prediction'' (Some False) (91 / 10) ''2024-02-02 09:00:00'' = Inr d'"
    and vals: "Total_Earnings_Calls d' = 4" "Total_Contrarian_Instances d' = 2"
      "Consistency_Score d' = 50"
    by (auto split: sum.splits)
  from consistency_score_exact[of L edited_row "''Microsoft Corporation''" "''MSFT''"
      "''2024-01-24''" "''Both_Sentiment_Prediction''" "Some False" "91 / 10"
      "''2024-02-02 09:00:00''"] bounds upd
  have "\<bar>Consistency_Score d'
            - of_int (Total_Contrarian_Instances d') / of_int (Total_Earnings_Calls d') * 100\<bar>
           < 1 / 10"
    by blast
  with bounds upd vals
  have second: "\<exists>d'. 0 \<le> Total_Contrarian_Instances edited_row \<and>
         Total_Contrarian_Instances edited_row \<le> Total_Earnings_Calls edited_row \<and>
         update_existing_author edited_row ''Microsoft Corporation'' ''MSFT'' ''2024-01-24''
           ''Both_Sentiment_Prediction'' (Some False) (91 / 10) ''2024-02-02 09:00:00'' = Inr d' \<and>
         Total_Earnings_Calls d' = 4 \<and> Total_Contrarian_Instances d' = 2 \<and>
         Consistency_Score d' = 50 \<and>
         \<bar>Consistency_Score d'
            - of_int (Total_Contrarian_Instances d') / of_int (Total_Earnings_Calls d') * 100\<bar>
           < 1 / 10"
    by blast
  from first second show ?thesis by blast
qed

text \<open>
  C10. A row of an author that the batch does not mention is not saved as it was saved
  before. The row of an author without a resolved call was saved with the success rate
  \<open>None\<close>; a merge of a batch by another author loads it with the success rate NaN and
  saves that row, which differs from the row saved before in this cell (the file shows
  \<open>nan\<close> where the cell was empty).
\<close>

theorem unmentioned_row_changes_across_reload:
  "reloaded_row jane_saved_row jane_loaded_row \<and>
   jane_loaded_row \<noteq> jane_saved_row \<and>
   author_id_of demo_other \<noteq> ''jane_doe'' \<and>
   (\<exists>L'. add_contrarian_analysis (\<lambda>author_id. True) demo_report [demo_other]
            ''2024-11-02 09:00:00'' (Map.empty(StrKey ''jane_doe'' \<mapsto> jane_loaded_row)) = Inr L' \<and>
         L' (StrKey ''jane_doe'') = Some jane_loaded_row)"
proof -
  have "case add_contrarian_analysis (\<lambda>author_id. True) demo_report [demo_other]
            ''2024-11-02 09:00:00'' (Map.empty(StrKey ''jane_doe'' \<mapsto> jane_loaded_row)) of
          Inl e \<Rightarrow> False
        | Inr L' \<Rightarrow> L' (StrKey ''jane_doe'') = Some jane_loaded_row"
    by code_simp
  then have run: "\<exists>L'. add_contrarian_analysis (\<lambda>author_id. True) demo_report [demo_other]
            ''2024-11-02 09:00:00'' (Map.empty(StrKey ''jane_doe'' \<mapsto> jane_loaded_row)) = Inr L' \<and>
         L' (StrKey ''jane_doe'') = Some jane_loaded_row"
    by (auto split: sum.splits)
  have "Contrarian_Success_Rate jane_loaded_row \<noteq> Contrarian_Success_Rate jane_saved_row"
    by (simp add: jane_loaded_row_def jane_saved_row_def create_new_author_record_def)
  then have differs: "jane_loaded_row \<noteq> jane_saved_row" by auto
  have other: "author_id_of demo_other \<noteq> ''jane_doe''" by (simp add: demo_other_id)
  from jane_reloaded differs other run show ?thesis by blast
qed

text \<open>
  C6. A batch with exactly one validly analyzed article yields no contrarian: the production
  analyzer returns no finding at all (the single opinion holds a share of 1 of both
  distributions, which is not below 0.4), and the simplified analyzer returns one record
  whose \<open>was_contrarian\<close> is false (the single opinion is the consensus).
\<close>

theorem single_opinion_never_contrarian:
  assumes "length (valid_articles analyzed_articles) = 1"
  shows "identify_contrarians analyzed_articles actual = [] \<and>
         (\<exists>r. simplified_identify_contrarians analyzed_articles actual today = Inr [r] \<and>
               \<not> record_was_contrarian r)"
  using assms single_opinion_production single_opinion_simplified by blast

theorem single_opinion_never_contrarian_witness:
  "length (valid_articles one_opinion_batch) = 1 \<and>
   identify_contrarians one_opinion_batch (Some resolved_outcome) = [] \<and>
   (\<exists>r. simplified_identify_contrarians one_opinion_batch (Some resolved_outcome) ''2024-11-01'' = Inr [r] \<and>
         \<not> record_was_contrarian r)"
  using single_opinion_never_contrarian[OF one_opinion_valid] one_opinion_valid by blast

text \<open>
  C4, as the code has it. For every finding of the production analyzer, a dimension is
  flagged minority exactly when its share of the valid articles is below 0.4, and the
  stored score is the sum of the two dimensions' contributions, rounded to two decimals
  in floating point: it is within 0.01 of the exact sum. The bonus of the sentiment
  dimension is read from \<open>confidence\<close>, that of the prediction dimension from
  \<open>prediction_confidence\<close>: 20 for high, 10 for medium, and 5 for every other value, an
  absent one included.
\<close>

theorem contrarian_score_formula:
  assumes "f \<in> set (identify_contrarians analyzed_articles actual)"
  shows "finding_was_minority_sentiment f =
           (share (map (analysis_sentiment \<circ> snd) (valid_articles analyzed_articles)) (finding_sentiment f) < 4 / 10) \<and>
         finding_was_minority_prediction f =
           (share (map (analysis_earnings_prediction \<circ> snd) (valid_articles analyzed_articles)) (finding_prediction f) < 4 / 10) \<and>
         \<bar>finding_contrarian_score f
            - (dimension_contribution (finding_was_minority_sentiment f)
                (share (map (analysis_sentiment \<circ> snd) (valid_articles analyzed_articles)) (finding_sentiment f))
                (label_bonus (finding_confidence f))
                (finding_actual_result_available f \<and> finding_sentiment_correct f)
              + dimension_contribution (finding_was_minority_prediction f)
                (share (map (analysis_earnings_prediction \<circ> snd) (valid_articles analyzed_articles)) (finding_prediction f))
                (label_bonus (finding_prediction_confidence f))
                (finding_actual_result_available f \<and> finding_prediction_correct f))\<bar>
           < 1 / 100"
proof -
  define total where "total =
     dimension_contribution (finding_was_minority_sentiment f)
                (share (map (analysis_sentiment \<circ> snd) (valid_articles analyzed_articles)) (finding_sentiment f))
                (label_bonus (finding_confidence f))
                (finding_actual_result_available f \<and> finding_sentiment_correct f)
              + dimension_contribution (finding_was_minority_prediction f)
                (share (map (analysis_earnings_prediction \<circ> snd) (valid_articles analyzed_articles)) (finding_prediction f))
                (label_bonus (finding_prediction_confidence f))
                (finding_actual_result_available f \<and> finding_prediction_correct f)"
  from contrarian_score_rounded[OF assms]
  have flags: "finding_was_minority_sentiment f =
           (share (map (analysis_sentiment \<circ> snd) (valid_articles analyzed_articles)) (finding_sentiment f) < 4 / 10)"
      "finding_was_minority_prediction f =
           (share (map (analysis_earnings_prediction \<circ> snd) (valid_articles analyzed_articles)) (finding_prediction f) < 4 / 10)"
    and score: "finding_contrarian_score f = py_round total 2"
    unfolding total_def by blast+
  have "\<bar>py_round total 2 - total\<bar> \<le> 1 / 200" by (rule py_round_near_2)
  then have "\<bar>finding_contrarian_score f - total\<bar> < 1 / 100" using score by simp
  with flags show ?thesis unfolding total_def by blast
qed

theorem contrarian_score_formula_witness:
  "\<exists>f. f \<in> set (identify_contrarians resolved_batch (Some resolved_outcome)) \<and>
       finding_contrarian_score f = 300 \<and>
       \<bar>finding_contrarian_score f
          - (dimension_contribution (finding_was_minority_sentiment f)
              (share (map (analysis_sentiment \<circ> snd) (valid_articles resolved_batch)) (finding_sentiment f))
              (label_bonus (finding_confidence f))
              (finding_actual_result_available f \<and> finding_sentiment_correct f)
            + dimension_contribution (finding_was_minority_prediction f)
              (share (map (analysis_earnings_prediction \<circ> snd) (valid_articles resolved_batch)) (finding_prediction f))
              (label_bonus (finding_prediction_confidence f))
              (finding_actual_result_available f \<and> finding_prediction_correct f))\<bar>
         < 1 / 100"
proof -
  let ?f = "hd (identify_contrarians resolved_batch (Some resolved_outcome))"
  have mem: "?f \<in> set (identify_contrarians resolved_batch (Some resolved_outcome))"
    using resolved_batch_top_score by simp
  from contrarian_score_formula[OF mem] resolved_batch_top_score mem show ?thesis by blast
qed

text \<open>
  C4 as stated fails: an opinion without confidence, alone against four, scores
  \<open>80 + 5 = 85\<close>, where a bonus of 0 for an absent confidence gives 80; and a share of one
  third scores 71.67, the rounded value of \<open>215 / 3\<close>.
\<close>

theorem absent_confidence_scores_five:
  "map finding_contrarian_score (identify_contrarians sample_batch None) = [85] \<and>
   dimension_contribution True (1 / 5) (claimed_bonus None) False
     + dimension_contribution False 1 (claimed_bonus None) False = 80 \<and>
   map finding_contrarian_score (identify_contrarians small_batch None) = [7167 / 100] \<and>
   dimension_contribution True (1 / 3) 5 False + dimension_contribution False 1 5 False = 215 / 3"
  by code_simp




text \<open>
  C3, as the code has it. With a resolved outcome, the analyzers count an opinion as correct
  exactly when its sentiment is the one mapped from the price change or its prediction is
  the result; the production findings carry the two comparisons, the simplified records
  their disjunction. The ledger does not use this verdict: it compares the lower-cased
  \<open>earnings_prediction\<close> of the finding with the lower-cased result, and nothing else.
\<close>

theorem correctness_is_lenient_or_and_ledger_is_prediction_only:
  "(fst (check_correctness sent pred (Some r)) \<longleftrightarrow> sent = actual_sentiment r \<or> pred = result r) \<and>
   (\<forall>f \<in> set (identify_contrarians analyzed_articles (Some r)).
      finding_sentiment_correct f = (finding_sentiment f = actual_sentiment r) \<and>
      finding_prediction_correct f = (finding_prediction f = result r)) \<and>
   (\<forall>recs. simplified_identify_contrarians analyzed_articles (Some r) today = Inr recs \<longrightarrow>
      (\<forall>x \<in> set recs. record_was_correct x \<longleftrightarrow>
         record_sentiment x = actual_sentiment r \<or> record_prediction x = result r)) \<and>
   evaluate_contrarian_accuracy c (Some res) =
     ledger_verdict (str_lower (case earnings_prediction c of None \<Rightarrow> [] | Some p \<Rightarrow> p))
                    (str_lower (case res of None \<Rightarrow> [] | Some a \<Rightarrow> a))"
proof (intro conjI ballI allI impI)
  show "fst (check_correctness sent pred (Some r)) \<longleftrightarrow> sent = actual_sentiment r \<or> pred = result r"
    by (simp add: check_correctness_def Let_def)
next
  fix f assume "f \<in> set (identify_contrarians analyzed_articles (Some r))"
  then obtain aa where mem: "f \<in> set (contrarian_of_article
                 (count_list (map (analysis_sentiment \<circ> snd) (valid_articles analyzed_articles)))
                 (count_list (map (analysis_earnings_prediction \<circ> snd) (valid_articles analyzed_articles)))
                 (length (valid_articles analyzed_articles)) (Some r) aa)"
    by (rule identify_contrarians_member)
  then have "finding_sentiment_correct f = (finding_sentiment f = actual_sentiment r) \<and>
      finding_prediction_correct f = (finding_prediction f = result r)"
    unfolding contrarian_of_article_def Let_def
    by (auto simp: check_correctness_def Let_def split: if_splits)
  then show "finding_sentiment_correct f = (finding_sentiment f = actual_sentiment r)"
    "finding_prediction_correct f = (finding_prediction f = result r)" by simp_all
next
  fix recs x
  assume "simplified_identify_contrarians analyzed_articles (Some r) today = Inr recs" "x \<in> set recs"
  from simplified_member[OF this]
  show "record_was_correct x \<longleftrightarrow> record_sentiment x = actual_sentiment r \<or> record_prediction x = result r"
    by (auto simp: check_correctness_def Let_def)
next
  show "evaluate_contrarian_accuracy c (Some res) =
     ledger_verdict (str_lower (case earnings_prediction c of None \<Rightarrow> [] | Some p \<Rightarrow> p))
                    (str_lower (case res of None \<Rightarrow> [] | Some a \<Rightarrow> a))"
    by (auto simp: evaluate_contrarian_accuracy_def ledger_verdict_def Let_def)
qed

theorem correctness_is_lenient_or_and_ledger_is_prediction_only_witness:
  "(fst (check_correctness ''bullish'' ''miss'' (Some resolved_outcome)) \<longleftrightarrow>
      ''bullish'' = actual_sentiment resolved_outcome \<or> ''miss'' = result resolved_outcome) \<and>
   (\<exists>f. f \<in> set (identify_contrarians resolved_batch (Some resolved_outcome)) \<and>
      finding_sentiment_correct f = (finding_sentiment f = actual_sentiment resolved_outcome) \<and>
      finding_prediction_correct f = (finding_prediction f = result resolved_outcome)) \<and>
   (\<exists>recs x. simplified_identify_contrarians resolved_batch (Some resolved_outcome) ''2024-11-01'' = Inr recs \<and>
      x \<in> set recs \<and>
      (record_was_correct x \<longleftrightarrow>
         record_sentiment x = actual_sentiment resolved_outcome \<or> record_prediction x = result resolved_outcome)) \<and>
   evaluate_contrarian_accuracy ann_contrarian (Some (Some ''beat'')) = ledger_verdict ''miss'' ''beat''"
proof -
  note claim = correctness_is_lenient_or_and_ledger_is_prediction_only[of "''bullish''" "''miss''"
      resolved_outcome resolved_batch "''2024-11-01''" ann_contrarian "Some ''beat''"]
  let ?fs = "identify_contrarians resolved_batch (Some resolved_outcome)"
  have "hd ?fs \<in> set ?fs" using resolved_batch_top_score by simp
  with claim have a: "\<exists>f. f \<in> set ?fs \<and>
      finding_sentiment_correct f = (finding_sentiment f = actual_sentiment resolved_outcome) \<and>
      finding_prediction_correct f = (finding_prediction f = result resolved_outcome)" by blast
  obtain recs where recs: "simplified_identify_contrarians resolved_batch (Some resolved_outcome) ''2024-11-01'' = Inr recs"
    and ne: "recs \<noteq> []"
  proof -
    have "case simplified_identify_contrarians resolved_batch (Some resolved_outcome) ''2024-11-01'' of
            Inl e \<Rightarrow> False | Inr recs \<Rightarrow> recs \<noteq> []" by code_simp
    then show ?thesis using that by (auto split: sum.splits)
  qed
  from ne have "hd recs \<in> set recs" by simp
  with claim recs have b: "\<exists>recs x. simplified_identify_contrarians resolved_batch (Some resolved_outcome) ''2024-11-01'' = Inr recs \<and>
      x \<in> set recs \<and>
      (record_was_correct x \<longleftrightarrow>
         record_sentiment x = actual_sentiment resolved_outcome \<or> record_prediction x = result resolved_outcome)" by blast
  have low: "str_lower ''miss'' = ''miss''" "str_lower ''beat'' = ''beat''" by code_simp+
  from claim have c: "evaluate_contrarian_accuracy ann_contrarian (Some (Some ''beat'')) = ledger_verdict ''miss'' ''beat''"
    by (simp add: ann_contrarian_def low)
  from claim a b c show ?thesis by blast
qed

text \<open>
  C3 as stated fails: a bullish opinion that predicted a miss is correct for the analyzers
  after a rise of 5 percent (the sentiment matches), while the ledger, for the same
  prediction and the result \<open>beat\<close>, counts a failed call.
\<close>

theorem ledger_verdict_differs_from_lenient_or:
  "map (\<lambda>f. (finding_author f, finding_sentiment_correct f \<or> finding_prediction_correct f))
     (identify_contrarians sample_batch (Some resolved_outcome)) = [(''Ann'', True)] \<and>
   evaluate_contrarian_accuracy ann_contrarian (Some (Some (result resolved_outcome))) = Some False \<and>
   (case add_contrarian_analysis (\<lambda>author_id. True)
           (demo_report\<lparr>actual_result := Some (Some (result resolved_outcome))\<rparr>)
           [ann_contrarian] ''2024-11-01 09:00:00'' Map.empty of
      Inl e \<Rightarrow> (0, 0) | Inr L \<Rightarrow> success_failure L (StrKey ''ann'')) = (0, 1)"
  by code_simp

end
